theory Spec2Isabelle
  imports Main "HOL-Library.Sublist" "HOL-Library.AList"
begin

section \<open>Documents and collections\<close>

text \<open>
  The store of \<^verbatim>\<open>backend/app/database/organizations.py\<close> holds three collections,
  \<^verbatim>\<open>Organizations\<close>, \<^verbatim>\<open>Users\<close> and \<^verbatim>\<open>Opportunities\<close>. A collection is a list of
  documents keyed by \<^verbatim>\<open>_id\<close>; array fields are lists, because \<^verbatim>\<open>$push\<close> appends
  without looking for duplicates. Ids are strings throughout, as the signatures of the
  source say (\<^verbatim>\<open>current_user: str\<close>, \<^verbatim>\<open>org_id: str\<close>), so \<^verbatim>\<open>str(x)\<close> is \<open>x\<close>.
\<close>

type_synonym oid = string

record organization =
  name :: string
  created_by :: oid
  admins :: "oid list"
  members :: "oid list"
  opportunities :: "oid list"
  is_private :: bool

record user =
  organizations :: "oid list"

record opportunity =
  opportunity_organization_id :: oid
  opportunity_created_by :: oid
  title :: string

text \<open>The payloads of the two create operations (\<^verbatim>\<open>OrganizationBaseSchema\<close>,
  \<^verbatim>\<open>OpportunityBaseSchema\<close>): the fields of the data model that the caller supplies.\<close>

record organization_base =
  base_name :: string
  base_private :: bool

record opportunity_base =
  base_title :: string

type_synonym 'a collection = "(oid \<times> 'a) list"

record collections =
  Organizations :: "organization collection"
  Users :: "user collection"
  Opportunities :: "opportunity collection"

text \<open>
  The client: the data, whether the server can be reached, and the number of sessions
  started and not yet ended. Sessions are the client's, not the transaction's: aborting
  a transaction restores the data and leaves the session open.
\<close>

record client =
  db :: collections
  reachable :: bool
  open_sessions :: nat

section \<open>Failures\<close>

text \<open>
  What a \<^verbatim>\<open>try\<close> block of the store raises: the driver's \<^verbatim>\<open>ConnectionFailure\<close> and
  \<^verbatim>\<open>DuplicateKeyError\<close>, and \<^verbatim>\<open>Exception({"status_code": s, "detail": d})\<close>. Every
  dictionary the source raises has both keys, so the defaults of \<^verbatim>\<open>.get\<close> never apply.
\<close>

datatype exn = ConnectionFailure | DuplicateKeyError | Exception nat string

text \<open>
  What a store operation raises to its caller: \<^verbatim>\<open>HTTPException\<close>, or the
  \<^verbatim>\<open>AttributeError\<close> of \<^verbatim>\<open>e.args[0].get\<close> when \<^verbatim>\<open>e.args[0]\<close> is the driver's message
  string and not a dictionary.
\<close>

datatype failure = HTTPException (status_code: nat) (detail: string) | AttributeError

datatype 'a response = Created 'a | OK 'a

definition HTTP_400_BAD_REQUEST :: nat where "HTTP_400_BAD_REQUEST = 400"
definition HTTP_401_UNAUTHORIZED :: nat where "HTTP_401_UNAUTHORIZED = 401"
definition HTTP_404_NOT_FOUND :: nat where "HTTP_404_NOT_FOUND = 404"
definition HTTP_500_INTERNAL_SERVER_ERROR :: nat where "HTTP_500_INTERNAL_SERVER_ERROR = 500"

text \<open>The \<^verbatim>\<open>except\<close> clauses of \<^verbatim>\<open>create_organization\<close>, in their order.\<close>

fun except_create_organization :: "exn \<Rightarrow> failure" where
  "except_create_organization ConnectionFailure =
     HTTPException HTTP_500_INTERNAL_SERVER_ERROR ''Error: Database connection error.''"
| "except_create_organization DuplicateKeyError =
     HTTPException HTTP_400_BAD_REQUEST ''Error: Organization already exists with this name.''"
| "except_create_organization (Exception s d) = HTTPException s d"

text \<open>The \<^verbatim>\<open>except\<close> clauses of the other operations: no clause for
  \<^verbatim>\<open>DuplicateKeyError\<close>, which falls to \<^verbatim>\<open>except Exception as e\<close>.\<close>

fun except_default :: "exn \<Rightarrow> failure" where
  "except_default ConnectionFailure =
     HTTPException HTTP_500_INTERNAL_SERVER_ERROR ''Error: Database connection error.''"
| "except_default DuplicateKeyError = AttributeError"
| "except_default (Exception s d) = HTTPException s d"

section \<open>The driver\<close>

text \<open>
  \<^verbatim>\<open>find_one({"_id": k})\<close>, \<^verbatim>\<open>update_one({"_id": k}, {"$push": ...})\<close>,
  \<^verbatim>\<open>update_many({"_id": {"$in": ks}}, {"$pull": ...})\<close> and \<^verbatim>\<open>delete_one({"_id": k})\<close>
  on a collection, each write with the count it reports. \<^verbatim>\<open>$push\<close> changes every
  document it matches; \<^verbatim>\<open>$pull\<close> changes a document only when the value is in the array.
\<close>

definition find_one :: "'a collection \<Rightarrow> oid \<Rightarrow> 'a option" where
  "find_one coll k = map_of coll k"

definition update_one :: "'a collection \<Rightarrow> oid \<Rightarrow> ('a \<Rightarrow> 'a) \<Rightarrow> nat \<times> 'a collection" where
  "update_one coll k f =
     (case map_of coll k of
        None \<Rightarrow> (0, coll)
      | Some _ \<Rightarrow> (1, AList.map_entry k f coll))"

definition delete_one :: "'a collection \<Rightarrow> oid \<Rightarrow> nat \<times> 'a collection" where
  "delete_one coll k =
     (case map_of coll k of
        None \<Rightarrow> (0, coll)
      | Some _ \<Rightarrow> (1, AList.delete k coll))"

definition pull :: "oid \<Rightarrow> user \<Rightarrow> user" where
  "pull v u = u\<lparr>organizations := removeAll v (organizations u)\<rparr>"

definition pull_matches :: "oid list \<Rightarrow> oid \<Rightarrow> oid \<times> user \<Rightarrow> bool" where
  "pull_matches ks v d = (fst d \<in> set ks \<and> v \<in> set (organizations (snd d)))"

definition update_many_pull :: "user collection \<Rightarrow> oid list \<Rightarrow> oid \<Rightarrow> nat \<times> user collection" where
  "update_many_pull coll ks v =
     (length (filter (pull_matches ks v) coll),
      map (\<lambda>d. if fst d \<in> set ks then (fst d, pull v (snd d)) else d) coll)"

text \<open>
  Modelled from the spec: the unique index on an organization's \<^verbatim>\<open>name\<close> is declared
  outside these sources (the data model says "name (unique constraint)", and the
  source answers \<^verbatim>\<open>DuplicateKeyError\<close> with "Organization already exists with this
  name."). \<^verbatim>\<open>insert_one\<close> raises \<^verbatim>\<open>DuplicateKeyError\<close> on a known \<^verbatim>\<open>_id\<close> or name and
  appends the document otherwise.
\<close>

definition insert_one_organization ::
  "collections \<Rightarrow> oid \<Rightarrow> organization \<Rightarrow> exn + collections" where
  "insert_one_organization d k doc =
     (if k \<in> fst ` set (Organizations d) \<or> name doc \<in> (name \<circ> snd) ` set (Organizations d)
      then Inl DuplicateKeyError
      else Inr (d\<lparr>Organizations := Organizations d @ [(k, doc)]\<rparr>))"

definition insert_one_opportunity ::
  "collections \<Rightarrow> oid \<Rightarrow> opportunity \<Rightarrow> exn + collections" where
  "insert_one_opportunity d k doc =
     (if k \<in> fst ` set (Opportunities d)
      then Inl DuplicateKeyError
      else Inr (d\<lparr>Opportunities := Opportunities d @ [(k, doc)]\<rparr>))"

definition start_session :: "client \<Rightarrow> client" where
  "start_session c = c\<lparr>open_sessions := Suc (open_sessions c)\<rparr>"

definition end_session :: "client \<Rightarrow> client" where
  "end_session c = c\<lparr>open_sessions := open_sessions c - 1\<rparr>"

text \<open>
  \<^verbatim>\<open>async with session.start_transaction():\<close> commits the writes of the block when the
  block is left normally (also by \<^verbatim>\<open>return\<close>) and aborts them when it is left by an
  exception, which goes on to the \<^verbatim>\<open>except\<close> clauses. An unreachable server makes the
  first operation of the block raise \<^verbatim>\<open>ConnectionFailure\<close>.
\<close>

definition start_transaction ::
  "(collections \<Rightarrow> exn + ('a \<times> collections)) \<Rightarrow> client \<Rightarrow> (exn + 'a) \<times> client" where
  "start_transaction block c =
     (if \<not> reachable c then (Inl ConnectionFailure, c)
      else (case block (db c) of
              Inl e \<Rightarrow> (Inl e, c)
            | Inr (r, d) \<Rightarrow> (Inr r, c\<lparr>db := d\<rparr>)))"

text \<open>
  \<^verbatim>\<open>validate_object_id_fields\<close> (\<^verbatim>\<open>app.utils.validators\<close>) is not among the sources:
  it is a parameter, \<open>None\<close> when it accepts the ids and \<open>Some e\<close> when it raises \<open>e\<close>.
  The store operations call it before their \<^verbatim>\<open>try\<close>, so what it raises reaches the
  caller as it is. \<^verbatim>\<open>__initiate_db\<close> and \<^verbatim>\<open>MongoDBConnector().close()\<close> belong to the
  connector, which is not among the sources either, and touch no data.
\<close>

type_synonym validator = "oid list \<Rightarrow> failure option"

section \<open>The organization store\<close>

subsection \<open>\<^verbatim>\<open>delete_organization\<close>\<close>

definition delete_organization_block ::
  "oid \<Rightarrow> oid \<Rightarrow> collections \<Rightarrow> exn + (string response \<times> collections)" where
  "delete_organization_block current_user org_id d =
     (case find_one (Organizations d) org_id of
        None \<Rightarrow> Inl (Exception HTTP_401_UNAUTHORIZED ''Error: Organization not found.'')
      | Some organization \<Rightarrow>
          if current_user \<noteq> created_by organization
          then Inl (Exception HTTP_401_UNAUTHORIZED ''Error: Unauthorized user.'')
          else
            (case delete_one (Organizations d) org_id of
               (deleted_count, orgs) \<Rightarrow>
                 if deleted_count = 0
                 then Inl (Exception HTTP_400_BAD_REQUEST ''Error: Unable to delete organization.'')
                 else
                   (case update_many_pull (Users d) (members organization) org_id of
                      (modified_count, users) \<Rightarrow>
                        if modified_count = 0
                        then Inl (Exception HTTP_400_BAD_REQUEST ''Error: Unable to update user.'')
                        else Inr (OK ''Success: Organization deleted Successfully.'',
                                  d\<lparr>Organizations := orgs, Users := users\<rparr>))))"

text \<open>The source has no \<^verbatim>\<open>finally\<close> here: the session is started and never ended.\<close>

definition delete_organization ::
  "validator \<Rightarrow> client \<Rightarrow> oid \<Rightarrow> oid \<Rightarrow> (failure + string response) \<times> client" where
  "delete_organization validate_object_id_fields c current_user org_id =
     (case validate_object_id_fields [org_id, current_user] of
        Some e \<Rightarrow> (Inl e, c)
      | None \<Rightarrow>
          (case start_transaction (delete_organization_block current_user org_id) (start_session c) of
             (Inl e, c') \<Rightarrow> (Inl (except_default e), c')
           | (Inr r, c') \<Rightarrow> (Inr r, c')))"

subsection \<open>\<^verbatim>\<open>create_organization\<close>\<close>

text \<open>
  \<open>new_id\<close> is the \<^verbatim>\<open>_id\<close> of the new document, \<^verbatim>\<open>result.inserted_id\<close>. The result of
  \<^verbatim>\<open>insert_one\<close> is an object, so \<^verbatim>\<open>if result:\<close> always holds. The response is the
  inserted document with its id.
\<close>

definition new_organization :: "oid \<Rightarrow> organization_base \<Rightarrow> organization" where
  "new_organization current_user organization =
     \<lparr>name = base_name organization, created_by = current_user,
      admins = [current_user], members = [current_user],
      opportunities = [], is_private = base_private organization\<rparr>"

definition push_organizations :: "oid \<Rightarrow> user \<Rightarrow> user" where
  "push_organizations v u = u\<lparr>organizations := organizations u @ [v]\<rparr>"

definition create_organization_block ::
  "oid \<Rightarrow> oid \<Rightarrow> organization_base \<Rightarrow> collections
     \<Rightarrow> exn + ((oid \<times> organization) response \<times> collections)" where
  "create_organization_block new_id current_user organization d =
     (case insert_one_organization d new_id (new_organization current_user organization) of
        Inl e \<Rightarrow> Inl e
      | Inr d1 \<Rightarrow>
          (case update_one (Users d1) current_user (push_organizations new_id) of
             (modified_count, users) \<Rightarrow>
               if modified_count = 0
               then Inl (Exception HTTP_400_BAD_REQUEST ''Error: Unable to update user'')
               else Inr (Created (new_id, new_organization current_user organization),
                         d1\<lparr>Users := users\<rparr>)))"

definition create_organization ::
  "validator \<Rightarrow> client \<Rightarrow> oid \<Rightarrow> oid \<Rightarrow> organization_base
     \<Rightarrow> (failure + (oid \<times> organization) response) \<times> client" where
  "create_organization validate_object_id_fields c new_id current_user organization =
     (case validate_object_id_fields [current_user] of
        Some e \<Rightarrow> (Inl e, c)
      | None \<Rightarrow>
          (case start_transaction (create_organization_block new_id current_user organization)
                  (start_session c) of
             (Inl e, c') \<Rightarrow> (Inl (except_create_organization e), end_session c')
           | (Inr r, c') \<Rightarrow> (Inr r, end_session c')))"

subsection \<open>\<^verbatim>\<open>create_opportunity\<close>\<close>

text \<open>
  The response carries the inserted opportunity and the task handed to
  \<^verbatim>\<open>background_tasks.add_task\<close>: the organization id and the opportunity.
\<close>

definition new_opportunity :: "oid \<Rightarrow> oid \<Rightarrow> opportunity_base \<Rightarrow> opportunity" where
  "new_opportunity current_user org_id opp =
     \<lparr>opportunity_organization_id = org_id, opportunity_created_by = current_user,
      title = base_title opp\<rparr>"

definition push_opportunities :: "oid \<Rightarrow> organization \<Rightarrow> organization" where
  "push_opportunities v g = g\<lparr>opportunities := opportunities g @ [v]\<rparr>"

definition create_opportunity_block ::
  "oid \<Rightarrow> oid \<Rightarrow> oid \<Rightarrow> opportunity_base \<Rightarrow> collections
     \<Rightarrow> exn + (((oid \<times> opportunity) \<times> (oid \<times> opportunity)) response \<times> collections)" where
  "create_opportunity_block new_id current_user org_id opp d =
     (case insert_one_opportunity d new_id (new_opportunity current_user org_id opp) of
        Inl e \<Rightarrow> Inl e
      | Inr d1 \<Rightarrow>
          (case update_one (Organizations d1) org_id (push_opportunities new_id) of
             (modified_count, orgs) \<Rightarrow>
               if modified_count = 0
               then Inl (Exception HTTP_400_BAD_REQUEST ''Error: Unable to update organization'')
               else Inr (Created ((new_id, new_opportunity current_user org_id opp),
                                  (org_id, new_opportunity current_user org_id opp)),
                         d1\<lparr>Organizations := orgs\<rparr>)))"

definition create_opportunity ::
  "validator \<Rightarrow> client \<Rightarrow> oid \<Rightarrow> oid \<Rightarrow> oid \<Rightarrow> opportunity_base
     \<Rightarrow> (failure + ((oid \<times> opportunity) \<times> (oid \<times> opportunity)) response) \<times> client" where
  "create_opportunity validate_object_id_fields c new_id current_user org_id opp =
     (case validate_object_id_fields [current_user, org_id] of
        Some e \<Rightarrow> (Inl e, c)
      | None \<Rightarrow>
          (case start_transaction (create_opportunity_block new_id current_user org_id opp)
                  (start_session c) of
             (Inl e, c') \<Rightarrow> (Inl (except_default e), end_session c')
           | (Inr r, c') \<Rightarrow> (Inr r, end_session c')))"

subsection \<open>\<^verbatim>\<open>is_authorized_user\<close>\<close>

text \<open>
  \<^verbatim>\<open>find_one({"_id": org_id, "admins": user_id})\<close> finds the organization only when
  \<open>user_id\<close> is in its \<^verbatim>\<open>admins\<close> array. No session and no transaction here.
\<close>

definition find_one_admin :: "organization collection \<Rightarrow> oid \<Rightarrow> oid \<Rightarrow> organization option" where
  "find_one_admin coll org_id user_id =
     (case map_of coll org_id of
        None \<Rightarrow> None
      | Some g \<Rightarrow> if user_id \<in> set (admins g) then Some g else None)"

definition is_authorized_user_block :: "client \<Rightarrow> oid \<Rightarrow> oid \<Rightarrow> exn + unit" where
  "is_authorized_user_block c org_id user_id =
     (if \<not> reachable c then Inl ConnectionFailure
      else (case find_one_admin (Organizations (db c)) org_id user_id of
              None \<Rightarrow> Inl (Exception HTTP_401_UNAUTHORIZED ''Error: Unauthorized user.'')
            | Some _ \<Rightarrow> Inr ()))"

definition is_authorized_user :: "validator \<Rightarrow> client \<Rightarrow> oid \<Rightarrow> oid \<Rightarrow> failure + unit" where
  "is_authorized_user validate_object_id_fields c org_id user_id =
     (case validate_object_id_fields [org_id, user_id] of
        Some e \<Rightarrow> Inl e
      | None \<Rightarrow>
          (case is_authorized_user_block c org_id user_id of
             Inl e \<Rightarrow> Inl (except_default e)
           | Inr r \<Rightarrow> Inr r))"

subsection \<open>\<^verbatim>\<open>add_member\<close>\<close>

definition push_members :: "oid \<Rightarrow> organization \<Rightarrow> organization" where
  "push_members v g = g\<lparr>members := members g @ [v]\<rparr>"

definition add_member_block ::
  "oid \<Rightarrow> oid \<Rightarrow> collections \<Rightarrow> exn + (string response \<times> collections)" where
  "add_member_block current_user org_id d =
     (case find_one (Organizations d) org_id of
        None \<Rightarrow> Inl (Exception HTTP_404_NOT_FOUND ''Error: Organization not found.'')
      | Some organization \<Rightarrow>
          if current_user \<in> set (members organization)
          then Inl (Exception HTTP_400_BAD_REQUEST
                      ''Error: User is already a member of the organization.'')
          else if is_private organization
          then Inl (Exception HTTP_401_UNAUTHORIZED ''Error: Organization is private.'')
          else
            (case update_one (Organizations d) org_id (push_members current_user) of
               (modified_count, orgs) \<Rightarrow>
                 if modified_count = 0
                 then Inl (Exception HTTP_400_BAD_REQUEST ''Error: Unable to update user'')
                 else
                   (case update_one (Users d) current_user (push_organizations org_id) of
                      (modified_count, users) \<Rightarrow>
                        if modified_count = 0
                        then Inl (Exception HTTP_400_BAD_REQUEST ''Error: Unable to update user.'')
                        else Inr (Created ''Success: User added to the organization.'',
                                  d\<lparr>Organizations := orgs, Users := users\<rparr>))))"

definition add_member ::
  "validator \<Rightarrow> client \<Rightarrow> oid \<Rightarrow> oid \<Rightarrow> (failure + string response) \<times> client" where
  "add_member validate_object_id_fields c current_user org_id =
     (case validate_object_id_fields [org_id, current_user] of
        Some e \<Rightarrow> (Inl e, c)
      | None \<Rightarrow>
          (case start_transaction (add_member_block current_user org_id) (start_session c) of
             (Inl e, c') \<Rightarrow> (Inl (except_default e), end_session c')
           | (Inr r, c') \<Rightarrow> (Inr r, end_session c')))"

section \<open>The middleware\<close>

text \<open>
  \<^verbatim>\<open>backend/app/utils/middlewares.py\<close>. A Python exception is its class, its message and
  its \<^verbatim>\<open>__cause__\<close>, which \<^verbatim>\<open>raise ... from e\<close> sets to \<open>e\<close> and a plain \<^verbatim>\<open>raise\<close>
  leaves \<^verbatim>\<open>None\<close>.
\<close>

datatype py_exception =
  PyException (exc_class: string) (message: string) (cause: "py_exception option")

definition PUBLIC_ENDPOINTS :: "(string \<times> string) list" where
  "PUBLIC_ENDPOINTS =
     [(''/docs'', ''GET''), (''/openapi.json'', ''GET''), (''/analytics/health'', ''GET''),
      (''/auth/register'', ''POST''), (''/auth/verify'', ''POST''), (''/auth/login'', ''POST'')]"

definition UNAUTHORIZED_ENDPOINTS :: "(string \<times> string) list" where
  "UNAUTHORIZED_ENDPOINTS =
     [(''/docs'', ''GET''), (''/openapi.json'', ''GET''), (''/analytics/health'', ''GET''),
      (''/auth/register'', ''POST''), (''/auth/verify'', ''POST''), (''/auth/login'', ''POST''),
      (''/users'', ''POST'')]"

definition WEB_SOCKET_ENDPOINTS :: "string list" where
  "WEB_SOCKET_ENDPOINTS = [''/ws'']"

definition is_public_endpoint :: "string \<Rightarrow> string \<Rightarrow> bool" where
  "is_public_endpoint request_path request_method =
     ((request_path, request_method) \<in> set PUBLIC_ENDPOINTS)"

definition is_unauthorized_endpoint :: "string \<Rightarrow> string \<Rightarrow> bool" where
  "is_unauthorized_endpoint request_path request_method =
     ((request_path, request_method) \<in> set UNAUTHORIZED_ENDPOINTS)"

definition is_web_socket_endpoint :: "string \<Rightarrow> bool" where
  "is_web_socket_endpoint path = (path \<in> set WEB_SOCKET_ENDPOINTS)"

text \<open>\<^verbatim>\<open>s.split(sep)\<close> for a separator of one character, and \<^verbatim>\<open>xs[i]\<close> for \<open>i \<ge> 0\<close>,
  \<open>None\<close> where Python raises \<^verbatim>\<open>IndexError\<close>.\<close>

fun str_split :: "char \<Rightarrow> string \<Rightarrow> string list" where
  "str_split sep [] = [[]]"
| "str_split sep (x # xs) =
     (if x = sep then [] # str_split sep xs
      else (case str_split sep xs of
              [] \<Rightarrow> [[x]]
            | w # ws \<Rightarrow> (x # w) # ws))"

definition index :: "'a list \<Rightarrow> nat \<Rightarrow> 'a option" where
  "index xs i = (if i < length xs then Some (xs ! i) else None)"

definition please_login :: string where
  "please_login = ''Please login to access this resource.''"

text \<open>
  The two collaborators that \<^verbatim>\<open>check_authorization\<close> awaits are parameters that say
  whether the call returns (\<open>True\<close>) or raises: \<^verbatim>\<open>Users().is_authorized_user\<close>, whose
  class is not among the sources, and \<^verbatim>\<open>Organizations().is_authorized_user\<close>. The
  function returns the calls it made, in order, beside its outcome.
\<close>

datatype call =
  Users_is_authorized_user oid
| Organizations_is_authorized_user string oid

definition check_activated ::
  "(oid \<Rightarrow> bool) \<Rightarrow> oid \<Rightarrow> string \<Rightarrow> string \<Rightarrow> call list \<times> (py_exception + unit)" where
  "check_activated users_is_authorized_user current_user request_path request_method =
     (if (request_method = ''POST'' \<and> request_path = ''/organizations'')
         \<or> (request_path = ''/ws'' \<and> request_method = ''GET'')
      then ([Users_is_authorized_user current_user],
            if users_is_authorized_user current_user then Inr ()
            else Inl (PyException ''Exception''
              ''User is not authorized to access this resource, please activate your account.''
              None))
      else ([], Inr ()))"

definition check_admin ::
  "(string \<Rightarrow> oid \<Rightarrow> bool) \<Rightarrow> oid \<Rightarrow> string \<Rightarrow> string \<Rightarrow> call list \<times> (py_exception + unit)" where
  "check_admin organizations_is_authorized_user current_user request_path request_method =
     (if request_method = ''POST''
         \<and> prefix ''/organizations'' request_path \<and> suffix ''/opportunities'' request_path
      then (case index (str_split CHR ''/'' request_path) 2 of
              None \<Rightarrow>
                ([], Inl (PyException ''Exception''
                       ''User is not authorized to access this resource.'' None))
            | Some organization_id \<Rightarrow>
                ([Organizations_is_authorized_user organization_id current_user],
                 if organizations_is_authorized_user organization_id current_user then Inr ()
                 else Inl (PyException ''Exception''
                        ''User is not authorized to access this resource.'' None)))
      else ([], Inr ()))"

definition check_authorization ::
  "(oid \<Rightarrow> bool) \<Rightarrow> (string \<Rightarrow> oid \<Rightarrow> bool) \<Rightarrow> oid option \<Rightarrow> string \<Rightarrow> string
     \<Rightarrow> call list \<times> (py_exception + unit)" where
  "check_authorization users_is_authorized_user organizations_is_authorized_user
       current_user request_path request_method =
     (if is_unauthorized_endpoint request_path request_method then ([], Inr ())
      else (case current_user of
              None \<Rightarrow> ([], Inl (PyException ''Exception'' please_login None))
            | Some u \<Rightarrow>
                (case check_activated users_is_authorized_user u request_path request_method of
                   (calls, Inl e) \<Rightarrow> (calls, Inl e)
                 | (calls, Inr _) \<Rightarrow>
                     (case check_admin organizations_is_authorized_user u
                             request_path request_method of
                        (calls', r) \<Rightarrow> (calls @ calls', r)))))"

text \<open>The second collaborator as the store implements it: any exception of
  \<^verbatim>\<open>Organizations().is_authorized_user\<close> is a refusal.\<close>

definition store_authorizes :: "validator \<Rightarrow> client \<Rightarrow> string \<Rightarrow> oid \<Rightarrow> bool" where
  "store_authorizes validate_object_id_fields c org_id user_id =
     (case is_authorized_user validate_object_id_fields c org_id user_id of
        Inl _ \<Rightarrow> False
      | Inr _ \<Rightarrow> True)"

text \<open>
  \<^verbatim>\<open>authentication_handler\<close>. \<^verbatim>\<open>JwtTokenHandler().decode\<close> is not among the sources: it
  is a parameter that raises or returns the token's dictionary, a key of which holds a
  string or \<^verbatim>\<open>None\<close>. \<^verbatim>\<open>validate_object_id_fields\<close>, whose result is tested here, raises
  or returns a truth value. A missing header is \<open>None\<close>, on which \<^verbatim>\<open>.split\<close> raises
  \<^verbatim>\<open>AttributeError\<close>.
\<close>

type_synonym token_data = "(string \<times> string option) list"

definition authentication_handler_try ::
  "(string \<Rightarrow> py_exception + token_data) \<Rightarrow> (string \<Rightarrow> py_exception + bool)
     \<Rightarrow> string option \<Rightarrow> py_exception + string" where
  "authentication_handler_try decode validate_object_id_fields access_token =
     (case access_token of
        None \<Rightarrow> Inl (PyException ''AttributeError''
                      ''NoneType object has no attribute split'' None)
      | Some token \<Rightarrow>
          (case index (str_split CHR '' '' token) 1 of
             None \<Rightarrow> Inl (PyException ''IndexError'' ''list index out of range'' None)
           | Some bearer_token \<Rightarrow>
               (case decode bearer_token of
                  Inl e \<Rightarrow> Inl e
                | Inr data \<Rightarrow>
                    (case map_of data ''user_id'' of
                       None \<Rightarrow> Inl (PyException ''KeyError'' ''user_id'' None)
                     | Some None \<Rightarrow> Inl (PyException ''Exception'' please_login None)
                     | Some (Some current_user) \<Rightarrow>
                         (case validate_object_id_fields current_user of
                            Inl e \<Rightarrow> Inl e
                          | Inr invalid \<Rightarrow>
                              if invalid then Inl (PyException ''Exception'' please_login None)
                              else Inr current_user)))))"

definition authentication_handler ::
  "(string \<Rightarrow> py_exception + token_data) \<Rightarrow> (string \<Rightarrow> py_exception + bool)
     \<Rightarrow> string option \<Rightarrow> py_exception + string" where
  "authentication_handler decode validate_object_id_fields access_token =
     (case authentication_handler_try decode validate_object_id_fields access_token of
        Inl e \<Rightarrow> Inl (PyException ''Exception'' please_login (Some e))
      | Inr current_user \<Rightarrow> Inr current_user)"

section \<open>Example stores\<close>

text \<open>
  A validator that accepts every id, and four stores: one organization \<open>o1\<close> created by
  \<open>u1\<close> with \<open>u2\<close> as second admin and member; the same store with the users' records
  out of step (no record lists \<open>o1\<close>); a store with users only; and a store with
  the private organization \<open>o2\<close>.
\<close>

definition accept_ids :: validator where
  "accept_ids ids = None"

definition acme :: organization where
  "acme = \<lparr>name = ''Acme'', created_by = ''u1'', admins = [''u1'', ''u2''],
           members = [''u1'', ''u2''], opportunities = [], is_private = False\<rparr>"

definition store_acme :: client where
  "store_acme =
     \<lparr>db = \<lparr>Organizations = [(''o1'', acme)],
             Users = [(''u1'', \<lparr>organizations = [''o1'']\<rparr>),
                      (''u2'', \<lparr>organizations = [''o1'']\<rparr>),
                      (''u3'', \<lparr>organizations = []\<rparr>)],
             Opportunities = []\<rparr>,
      reachable = True, open_sessions = 0\<rparr>"

definition store_out_of_step :: client where
  "store_out_of_step =
     \<lparr>db = \<lparr>Organizations = [(''o1'', acme)],
             Users = [(''u1'', \<lparr>organizations = []\<rparr>),
                      (''u2'', \<lparr>organizations = []\<rparr>)],
             Opportunities = []\<rparr>,
      reachable = True, open_sessions = 0\<rparr>"

definition store_users_only :: client where
  "store_users_only =
     \<lparr>db = \<lparr>Organizations = [],
             Users = [(''u1'', \<lparr>organizations = []\<rparr>)],
             Opportunities = []\<rparr>,
      reachable = True, open_sessions = 0\<rparr>"

definition secret :: organization where
  "secret = \<lparr>name = ''Secret'', created_by = ''u1'', admins = [''u1''],
             members = [''u1''], opportunities = [], is_private = True\<rparr>"

definition store_secret :: client where
  "store_secret =
     \<lparr>db = \<lparr>Organizations = [(''o2'', secret)],
             Users = [(''u1'', \<lparr>organizations = [''o2'']\<rparr>),
                      (''u3'', \<lparr>organizations = []\<rparr>)],
             Opportunities = []\<rparr>,
      reachable = True, open_sessions = 0\<rparr>"

definition acme_base :: organization_base where
  "acme_base = \<lparr>base_name = ''Acme'', base_private = False\<rparr>"

definition accept_user :: "oid \<Rightarrow> bool" where
  "accept_user u = True"

definition accept_admin :: "string \<Rightarrow> oid \<Rightarrow> bool" where
  "accept_admin org_id u = True"

definition refuse_user :: "oid \<Rightarrow> bool" where
  "refuse_user u = False"

text \<open>
  The route shape of the specification, \<^verbatim>\<open>/organizations/{id}/opportunities\<close>, in the
  specification's words and not the source's: four segments, the first empty, with a
  non-empty id.
\<close>

definition spec_opportunities_route :: "string \<Rightarrow> bool" where
  "spec_opportunities_route request_path =
     (case str_split CHR ''/'' request_path of
        [a, b, organization_id, d] \<Rightarrow>
          a = [] \<and> b = ''organizations'' \<and> organization_id \<noteq> [] \<and> d = ''opportunities''
      | _ \<Rightarrow> False)"

text \<open>A token decoder that rejects every token, one that returns the user \<open>u1\<close>, and a
  validator that finds every id well-formed.\<close>

definition decode_rejecting :: "string \<Rightarrow> py_exception + token_data" where
  "decode_rejecting t = Inl (PyException ''DecodeError'' ''Signature verification failed'' None)"

definition decode_u1 :: "string \<Rightarrow> py_exception + token_data" where
  "decode_u1 t = Inr [(''user_id'', Some ''u1'')]"

definition well_formed :: "string \<Rightarrow> py_exception + bool" where
  "well_formed current_user = Inr False"

section \<open>Properties of the organization store\<close>

lemma end_start_session: "end_session (start_session c) = c"
  by (simp add: end_session_def start_session_def)

lemma db_start_session: "db (start_session c) = db c"
  and reachable_start_session: "reachable (start_session c) = reachable c"
  and open_start_session: "open_sessions (start_session c) = Suc (open_sessions c)"
  by (simp_all add: start_session_def)

lemma db_end_session: "db (end_session c) = db c"
  and reachable_end_session: "reachable (end_session c) = reachable c"
  by (simp_all add: end_session_def)

lemma open_sessions_start_transaction:
  "open_sessions (snd (start_transaction block c)) = open_sessions c"
  by (simp add: start_transaction_def split: sum.splits prod.splits)

lemma reachable_start_transaction:
  "reachable (snd (start_transaction block c)) = reachable c"
  by (simp add: start_transaction_def split: sum.splits prod.splits)

lemma start_transaction_Inl:
  "fst (start_transaction block c) = Inl e \<Longrightarrow> snd (start_transaction block c) = c"
  by (auto simp add: start_transaction_def split: sum.splits prod.splits if_splits)

lemma start_transaction_reachable:
  "reachable c \<Longrightarrow> start_transaction block c =
     (case block (db c) of Inl e \<Rightarrow> (Inl e, c) | Inr (r, d) \<Rightarrow> (Inr r, c\<lparr>db := d\<rparr>))"
  by (simp add: start_transaction_def)


lemma snd_finally:
  "snd (case p of (Inl e, c') \<Rightarrow> (f e, g c') | (Inr r, c') \<Rightarrow> (h r, g c')) = g (snd p)"
  by (cases p) (simp split: sum.splits)

lemma delete_organization_run:
  assumes "validate [org_id, current_user] = None" and "reachable c"
  shows "delete_organization validate c current_user org_id =
     (case delete_organization_block current_user org_id (db c) of
        Inl e \<Rightarrow> (Inl (except_default e), start_session c)
      | Inr (r, d) \<Rightarrow> (Inr r, (start_session c)\<lparr>db := d\<rparr>))"
  using assms
  by (simp add: delete_organization_def start_transaction_reachable
      reachable_start_session db_start_session split: sum.splits prod.splits)

lemma add_member_run:
  assumes "validate [org_id, current_user] = None" and "reachable c"
  shows "add_member validate c current_user org_id =
     (case add_member_block current_user org_id (db c) of
        Inl e \<Rightarrow> (Inl (except_default e), c)
      | Inr (r, d) \<Rightarrow> (Inr r, c\<lparr>db := d\<rparr>))"
  using assms
  by (simp add: add_member_def start_transaction_reachable
      reachable_start_session db_start_session end_session_def start_session_def split: sum.splits prod.splits)

lemma create_organization_run:
  assumes "validate [current_user] = None" and "reachable c"
  shows "create_organization validate c new_id current_user organization =
     (case create_organization_block new_id current_user organization (db c) of
        Inl e \<Rightarrow> (Inl (except_create_organization e), c)
      | Inr (r, d) \<Rightarrow> (Inr r, c\<lparr>db := d\<rparr>))"
  using assms
  by (simp add: create_organization_def start_transaction_reachable
      reachable_start_session db_start_session end_session_def start_session_def split: sum.splits prod.splits)

text \<open>
  Claim C1. When the creator deletes an organization and the clean-up of the members'
  records (\<^verbatim>\<open>update_many\<close> with \<^verbatim>\<open>$pull\<close>) changes no record, the call fails with the
  bad-request failure "Unable to update user." and the deletion is not committed: the
  exception leaves the transaction block, the data is what it was before the call, and
  the organization is still found. This holds for every member list, so also for the
  organizations with at least one member.
\<close>

theorem delete_organization_cleanup_failure_aborts:
  assumes "validate [org_id, current_user] = None"
    and "reachable c"
    and "find_one (Organizations (db c)) org_id = Some organization"
    and "current_user = created_by organization"
    and "fst (update_many_pull (Users (db c)) (members organization) org_id) = 0"
  shows "fst (delete_organization validate c current_user org_id)
           = Inl (HTTPException HTTP_400_BAD_REQUEST ''Error: Unable to update user.'')
       \<and> db (snd (delete_organization validate c current_user org_id)) = db c
       \<and> find_one (Organizations (db (snd (delete_organization validate c current_user org_id))))
            org_id = Some organization"
proof -
  have "delete_organization_block current_user org_id (db c)
          = Inl (Exception HTTP_400_BAD_REQUEST ''Error: Unable to update user.'')"
    using assms(3-5)
    by (auto simp add: delete_organization_block_def delete_one_def find_one_def
        split: prod.splits)
  then show ?thesis
    using assms(1-3) by (simp add: delete_organization_run db_start_session)
qed

text \<open>The premises of C1 hold on the store whose user records are out of step.\<close>

theorem delete_organization_cleanup_failure_aborts_witness:
  "fst (delete_organization accept_ids store_out_of_step ''u1'' ''o1'')
     = Inl (HTTPException HTTP_400_BAD_REQUEST ''Error: Unable to update user.'')
   \<and> db (snd (delete_organization accept_ids store_out_of_step ''u1'' ''o1''))
     = db store_out_of_step
   \<and> find_one (Organizations (db (snd (delete_organization accept_ids store_out_of_step
        ''u1'' ''o1'')))) ''o1'' = Some acme"
proof -
  have h1: "accept_ids [''o1'', ''u1''] = None"
    by (simp add: accept_ids_def)
  have h2: "reachable store_out_of_step"
    by (simp add: store_out_of_step_def)
  have h3: "find_one (Organizations (db store_out_of_step)) ''o1'' = Some acme"
    by (simp add: store_out_of_step_def find_one_def)
  have h4: "''u1'' = created_by acme"
    by (simp add: acme_def)
  have h5: "fst (update_many_pull (Users (db store_out_of_step)) (members acme) ''o1'') = 0"
    by (simp add: store_out_of_step_def acme_def update_many_pull_def pull_matches_def)
  show ?thesis
    by (rule delete_organization_cleanup_failure_aborts
        [of accept_ids "''o1''" "''u1''" store_out_of_step acme, OF h1 h2 h3 h4 h5])
qed

lemma delete_organization_block_Inr:
  assumes "delete_organization_block current_user org_id d = Inr (r, d')"
  shows "\<exists>g. find_one (Organizations d) org_id = Some g \<and> current_user = created_by g"
  using assms
  by (auto simp add: delete_organization_block_def split: option.splits if_splits prod.splits)

lemma delete_organization_Inr_block:
  assumes "fst (delete_organization validate c current_user org_id) = Inr r"
  shows "\<exists>d'. delete_organization_block current_user org_id (db c) = Inr (r, d')"
  using assms
  by (auto simp add: delete_organization_def start_transaction_def db_start_session
      reachable_start_session split: option.splits sum.splits prod.splits if_splits)

text \<open>
  Claim C6. \<^verbatim>\<open>delete_organization\<close> succeeds only for a requester equal to the
  organization's \<^verbatim>\<open>created_by\<close>. Any other requester of an existing organization, an
  admin included, gets the authorization failure (401, "Unauthorized user."), and the
  data, hence the organization's record, is unchanged.
\<close>

theorem delete_organization_creator_only:
  "(fst (delete_organization validate c requester org_id) = Inr r \<longrightarrow>
      (\<exists>g. find_one (Organizations (db c)) org_id = Some g \<and> requester = created_by g))
   \<and> (validate [org_id, requester] = None \<and> reachable c
        \<and> find_one (Organizations (db c)) org_id = Some organization
        \<and> requester \<noteq> created_by organization \<longrightarrow>
      fst (delete_organization validate c requester org_id)
        = Inl (HTTPException HTTP_401_UNAUTHORIZED ''Error: Unauthorized user.'')
      \<and> db (snd (delete_organization validate c requester org_id)) = db c
      \<and> find_one (Organizations (db (snd (delete_organization validate c requester org_id))))
           org_id = Some organization)"
proof (intro conjI impI)
  assume "fst (delete_organization validate c requester org_id) = Inr r"
  then obtain d' where "delete_organization_block requester org_id (db c) = Inr (r, d')"
    using delete_organization_Inr_block by blast
  then show "\<exists>g. find_one (Organizations (db c)) org_id = Some g \<and> requester = created_by g"
    by (rule delete_organization_block_Inr)
next
  assume h: "validate [org_id, requester] = None \<and> reachable c
        \<and> find_one (Organizations (db c)) org_id = Some organization
        \<and> requester \<noteq> created_by organization"
  then have b: "delete_organization_block requester org_id (db c)
          = Inl (Exception HTTP_401_UNAUTHORIZED ''Error: Unauthorized user.'')"
    by (simp add: delete_organization_block_def)
  have run: "delete_organization validate c requester org_id
          = (Inl (HTTPException HTTP_401_UNAUTHORIZED ''Error: Unauthorized user.''),
             start_session c)"
    using h b by (simp add: delete_organization_run)
  show "fst (delete_organization validate c requester org_id)
        = Inl (HTTPException HTTP_401_UNAUTHORIZED ''Error: Unauthorized user.'')"
    by (simp add: run)
  show "db (snd (delete_organization validate c requester org_id)) = db c"
    by (simp add: run db_start_session)
  show "find_one (Organizations (db (snd (delete_organization validate c requester org_id))))
           org_id = Some organization"
    using h by (simp add: run db_start_session)
qed

text \<open>In the example store \<open>u2\<close> is an admin of \<open>o1\<close> and not its creator.\<close>

theorem delete_organization_creator_only_witness:
  "fst (delete_organization accept_ids store_acme ''u2'' ''o1'')
     = Inl (HTTPException HTTP_401_UNAUTHORIZED ''Error: Unauthorized user.'')
   \<and> db (snd (delete_organization accept_ids store_acme ''u2'' ''o1'')) = db store_acme
   \<and> find_one (Organizations (db (snd (delete_organization accept_ids store_acme
        ''u2'' ''o1'')))) ''o1'' = Some acme"
proof -
  have h: "accept_ids [''o1'', ''u2''] = None \<and> reachable store_acme
        \<and> find_one (Organizations (db store_acme)) ''o1'' = Some acme
        \<and> ''u2'' \<noteq> created_by acme"
    by (simp add: accept_ids_def store_acme_def find_one_def acme_def)
  from delete_organization_creator_only
    [of accept_ids store_acme "''u2''" "''o1''" "OK []" acme] h
  show ?thesis by blast
qed

subsection \<open>Sessions\<close>

text \<open>The three operations with a \<^verbatim>\<open>finally\<close> clause end the session they started, on
  every path.\<close>

lemma create_organization_releases_session:
  "open_sessions (snd (create_organization validate c new_id current_user organization))
     = open_sessions c"
proof (cases "validate [current_user]")
  case None
  have "open_sessions (snd (start_transaction
          (create_organization_block new_id current_user organization) (start_session c)))
        = Suc (open_sessions c)"
    by (simp add: open_sessions_start_transaction open_start_session)
  then show ?thesis
    using None
    by (simp add: create_organization_def end_session_def snd_finally)
next
  case (Some e)
  then show ?thesis by (simp add: create_organization_def)
qed

lemma create_opportunity_releases_session:
  "open_sessions (snd (create_opportunity validate c new_id current_user org_id opp))
     = open_sessions c"
proof (cases "validate [current_user, org_id]")
  case None
  have "open_sessions (snd (start_transaction
          (create_opportunity_block new_id current_user org_id opp) (start_session c)))
        = Suc (open_sessions c)"
    by (simp add: open_sessions_start_transaction open_start_session)
  then show ?thesis
    using None
    by (simp add: create_opportunity_def end_session_def snd_finally)
next
  case (Some e)
  then show ?thesis by (simp add: create_opportunity_def)
qed

lemma add_member_releases_session:
  "open_sessions (snd (add_member validate c current_user org_id)) = open_sessions c"
proof (cases "validate [org_id, current_user]")
  case None
  have "open_sessions (snd (start_transaction
          (add_member_block current_user org_id) (start_session c)))
        = Suc (open_sessions c)"
    by (simp add: open_sessions_start_transaction open_start_session)
  then show ?thesis
    using None
    by (simp add: add_member_def end_session_def snd_finally)
next
  case (Some e)
  then show ?thesis by (simp add: add_member_def)
qed

text \<open>
  Claim C9 says that every operation that starts a session ends it on every exit path.
  \<^verbatim>\<open>delete_organization\<close> has no \<^verbatim>\<open>finally\<close> clause and never calls
  \<^verbatim>\<open>end_session\<close>: whenever the ids pass validation, one more session is open after
  the call than before it, whether the call succeeds or fails.
\<close>

theorem delete_organization_leaves_session_open:
  assumes "validate [org_id, current_user] = None"
  shows "open_sessions (snd (delete_organization validate c current_user org_id))
           = Suc (open_sessions c)"
proof -
  have "open_sessions (snd (start_transaction
          (delete_organization_block current_user org_id) (start_session c)))
        = Suc (open_sessions c)"
    by (simp add: open_sessions_start_transaction open_start_session)
  then show ?thesis
    using assms
    by (simp add: delete_organization_def snd_finally [where g = "\<lambda>c. c"])
qed

text \<open>On the example store, with the creator as requester.\<close>

theorem delete_organization_leaves_session_open_witness:
  "open_sessions (snd (delete_organization accept_ids store_acme ''u1'' ''o1''))
       = Suc (open_sessions store_acme)"
proof -
  have h: "accept_ids [''o1'', ''u1''] = None"
    by (simp add: accept_ids_def)
  show ?thesis
    by (rule delete_organization_leaves_session_open
        [of accept_ids "''o1''" "''u1''" store_acme, OF h])
qed

subsection \<open>Reads after writes\<close>

lemma find_one_append_new:
  "k \<notin> fst ` set coll \<Longrightarrow> find_one (coll @ [(k, v)]) k = Some v"
  by (simp add: find_one_def map_add_def map_of_eq_None_iff [THEN iffD2])

lemma find_one_None_iff: "find_one coll k = None \<longleftrightarrow> k \<notin> fst ` set coll"
  by (simp add: find_one_def map_of_eq_None_iff)

lemma find_one_map_entry:
  "find_one (AList.map_entry k f coll) k = map_option f (find_one coll k)"
  by (simp add: find_one_def map_of_map_entry split: option.splits)

lemma update_one_eq:
  "update_one coll k f =
     (case find_one coll k of None \<Rightarrow> (0, coll) | Some _ \<Rightarrow> (1, AList.map_entry k f coll))"
  by (simp add: update_one_def find_one_def)

subsection \<open>\<^verbatim>\<open>create_organization\<close>\<close>

lemma create_organization_block_Inr:
  assumes "create_organization_block new_id owner orgData d = Inr (r, d')"
  shows "r = Created (new_id, new_organization owner orgData)
       \<and> new_id \<notin> fst ` set (Organizations d)
       \<and> Organizations d' = Organizations d @ [(new_id, new_organization owner orgData)]
       \<and> (\<exists>u. find_one (Users d) owner = Some u)
       \<and> Users d' = AList.map_entry owner (push_organizations new_id) (Users d)"
  using assms
  by (auto simp add: create_organization_block_def insert_one_organization_def update_one_eq
      split: sum.splits prod.splits if_splits option.splits)

lemma create_organization_Inr_block:
  assumes "fst (create_organization validate c new_id owner orgData) = Inr r"
  shows "create_organization_block new_id owner orgData (db c)
           = Inr (r, db (snd (create_organization validate c new_id owner orgData)))"
  using assms
  by (auto simp add: create_organization_def start_transaction_def db_start_session
      db_end_session reachable_start_session
      split: option.splits sum.splits prod.splits if_splits)

text \<open>
  Claim C2. A successful \<^verbatim>\<open>create_organization\<close> returns and stores under the new id an
  organization whose \<^verbatim>\<open>admins\<close> and \<^verbatim>\<open>members\<close> are exactly the owner, whose
  \<^verbatim>\<open>created_by\<close> is the owner, and afterwards the owner's record lists the new id among
  its organizations.
\<close>

theorem create_organization_success:
  assumes "fst (create_organization validate c new_id owner orgData) = Inr r"
  shows "\<exists>g u. r = Created (new_id, g)
       \<and> find_one (Organizations (db (snd (create_organization validate c new_id owner orgData))))
            new_id = Some g
       \<and> admins g = [owner] \<and> set (admins g) = {owner}
       \<and> members g = [owner] \<and> set (members g) = {owner}
       \<and> created_by g = owner
       \<and> find_one (Users (db (snd (create_organization validate c new_id owner orgData))))
            owner = Some u
       \<and> new_id \<in> set (organizations u)"
proof -
  let ?d = "db (snd (create_organization validate c new_id owner orgData))"
  let ?g = "new_organization owner orgData"
  from create_organization_block_Inr [OF create_organization_Inr_block [OF assms]]
  obtain u where r: "r = Created (new_id, ?g)"
    and fresh: "new_id \<notin> fst ` set (Organizations (db c))"
    and orgs: "Organizations ?d = Organizations (db c) @ [(new_id, ?g)]"
    and u: "find_one (Users (db c)) owner = Some u"
    and users: "Users ?d = AList.map_entry owner (push_organizations new_id) (Users (db c))"
    by blast
  have 1: "find_one (Organizations ?d) new_id = Some ?g"
    using fresh by (simp add: orgs find_one_append_new)
  have 2: "find_one (Users ?d) owner = Some (push_organizations new_id u)"
    by (simp add: users find_one_map_entry u)
  have 3: "new_id \<in> set (organizations (push_organizations new_id u))"
    by (simp add: push_organizations_def)
  have 4: "admins ?g = [owner] \<and> set (admins ?g) = {owner}
       \<and> members ?g = [owner] \<and> set (members ?g) = {owner} \<and> created_by ?g = owner"
    by (simp add: new_organization_def)
  from r 1 2 3 4 show ?thesis by blast
qed

theorem create_organization_success_witness:
  "\<exists>g u. Created (''o1'', new_organization ''u1'' acme_base) = Created (''o1'', g)
       \<and> find_one (Organizations (db (snd (create_organization accept_ids store_users_only
            ''o1'' ''u1'' acme_base)))) ''o1'' = Some g
       \<and> admins g = [''u1''] \<and> set (admins g) = {''u1''}
       \<and> members g = [''u1''] \<and> set (members g) = {''u1''}
       \<and> created_by g = ''u1''
       \<and> find_one (Users (db (snd (create_organization accept_ids store_users_only
            ''o1'' ''u1'' acme_base)))) ''u1'' = Some u
       \<and> ''o1'' \<in> set (organizations u)"
proof -
  have h: "fst (create_organization accept_ids store_users_only ''o1'' ''u1'' acme_base)
             = Inr (Created (''o1'', new_organization ''u1'' acme_base))"
    by (simp add: create_organization_def accept_ids_def store_users_only_def
        start_transaction_def start_session_def create_organization_block_def
        insert_one_organization_def update_one_def)
  show ?thesis
    by (rule create_organization_success
        [of accept_ids store_users_only "''o1''" "''u1''" acme_base, OF h])
qed

text \<open>
  Claim C5. In \<^verbatim>\<open>create_organization\<close>, when the insert succeeds and the push into the
  owner's record changes no record, the call fails with the bad-request failure
  (400, "Unable to update user"), the data is unchanged and the new organization is not
  in the store. When the name is that of an organization in the store, the call fails
  with 400 "Organization already exists with this name." and the data, the users'
  records included, is unchanged.
\<close>

theorem create_organization_failures:
  assumes "validate [owner] = None" and "reachable c"
  shows "(insert_one_organization (db c) new_id (new_organization owner orgData) = Inr d1
          \<and> fst (update_one (Users d1) owner (push_organizations new_id)) = 0 \<longrightarrow>
            fst (create_organization validate c new_id owner orgData)
              = Inl (HTTPException HTTP_400_BAD_REQUEST ''Error: Unable to update user'')
          \<and> db (snd (create_organization validate c new_id owner orgData)) = db c
          \<and> find_one (Organizations (db (snd (create_organization validate c new_id owner
                 orgData)))) new_id = None)
       \<and> (base_name orgData \<in> (name \<circ> snd) ` set (Organizations (db c)) \<longrightarrow>
            fst (create_organization validate c new_id owner orgData)
              = Inl (HTTPException HTTP_400_BAD_REQUEST
                       ''Error: Organization already exists with this name.'')
          \<and> db (snd (create_organization validate c new_id owner orgData)) = db c
          \<and> find_one (Users (db (snd (create_organization validate c new_id owner orgData))))
               owner = find_one (Users (db c)) owner)"
proof (intro conjI impI)
  assume h: "insert_one_organization (db c) new_id (new_organization owner orgData) = Inr d1
          \<and> fst (update_one (Users d1) owner (push_organizations new_id)) = 0"
  then have b: "create_organization_block new_id owner orgData (db c)
                 = Inl (Exception HTTP_400_BAD_REQUEST ''Error: Unable to update user'')"
    by (auto simp add: create_organization_block_def split: prod.splits)
  have run: "create_organization validate c new_id owner orgData
               = (Inl (HTTPException HTTP_400_BAD_REQUEST ''Error: Unable to update user''), c)"
    using assms b by (simp add: create_organization_run)
  from h have fresh: "new_id \<notin> fst ` set (Organizations (db c))"
    by (auto simp add: insert_one_organization_def split: if_splits)
  show "fst (create_organization validate c new_id owner orgData)
          = Inl (HTTPException HTTP_400_BAD_REQUEST ''Error: Unable to update user'')"
    by (simp add: run)
  show "db (snd (create_organization validate c new_id owner orgData)) = db c"
    by (simp add: run)
  show "find_one (Organizations (db (snd (create_organization validate c new_id owner
          orgData)))) new_id = None"
    using fresh by (simp add: run find_one_None_iff)
next
  assume h: "base_name orgData \<in> (name \<circ> snd) ` set (Organizations (db c))"
  then have b: "create_organization_block new_id owner orgData (db c) = Inl DuplicateKeyError"
    by (simp add: create_organization_block_def insert_one_organization_def
        new_organization_def)
  have run: "create_organization validate c new_id owner orgData
               = (Inl (HTTPException HTTP_400_BAD_REQUEST
                    ''Error: Organization already exists with this name.''), c)"
    using assms b by (simp add: create_organization_run)
  show "fst (create_organization validate c new_id owner orgData)
          = Inl (HTTPException HTTP_400_BAD_REQUEST
                   ''Error: Organization already exists with this name.'')"
    by (simp add: run)
  show "db (snd (create_organization validate c new_id owner orgData)) = db c"
    by (simp add: run)
  show "find_one (Users (db (snd (create_organization validate c new_id owner orgData))))
          owner = find_one (Users (db c)) owner"
    by (simp add: run)
qed

text \<open>A push that changes nothing: \<open>u9\<close> has no record. A name taken: "Acme".\<close>

theorem create_organization_failures_witness:
  "(fst (create_organization accept_ids store_users_only ''o1'' ''u9'' acme_base)
      = Inl (HTTPException HTTP_400_BAD_REQUEST ''Error: Unable to update user'')
    \<and> db (snd (create_organization accept_ids store_users_only ''o1'' ''u9'' acme_base))
      = db store_users_only
    \<and> find_one (Organizations (db (snd (create_organization accept_ids store_users_only
         ''o1'' ''u9'' acme_base)))) ''o1'' = None)
   \<and> (fst (create_organization accept_ids store_acme ''o2'' ''u3'' acme_base)
      = Inl (HTTPException HTTP_400_BAD_REQUEST
               ''Error: Organization already exists with this name.'')
    \<and> db (snd (create_organization accept_ids store_acme ''o2'' ''u3'' acme_base))
      = db store_acme
    \<and> find_one (Users (db (snd (create_organization accept_ids store_acme ''o2'' ''u3''
         acme_base)))) ''u3'' = find_one (Users (db store_acme)) ''u3'')"
proof -
  let ?d1 = "(db store_users_only)
     \<lparr>Organizations := Organizations (db store_users_only)
        @ [(''o1'', new_organization ''u9'' acme_base)]\<rparr>"
  have v1: "accept_ids [''u9''] = None" and v2: "accept_ids [''u3''] = None"
    by (simp_all add: accept_ids_def)
  have r1: "reachable store_users_only" and r2: "reachable store_acme"
    by (simp_all add: store_users_only_def store_acme_def)
  have a: "insert_one_organization (db store_users_only) ''o1''
             (new_organization ''u9'' acme_base) = Inr ?d1
          \<and> fst (update_one (Users ?d1) ''u9'' (push_organizations ''o1'')) = 0"
    by (simp add: insert_one_organization_def store_users_only_def update_one_def)
  have b: "base_name acme_base \<in> (name \<circ> snd) ` set (Organizations (db store_acme))"
    by (simp add: acme_base_def store_acme_def acme_def)
  from create_organization_failures
         [of accept_ids "''u9''" store_users_only "''o1''" acme_base ?d1, OF v1 r1]
       create_organization_failures
         [of accept_ids "''u3''" store_acme "''o2''" acme_base ?d1, OF v2 r2]
       a b
  show ?thesis by blast
qed

subsection \<open>\<^verbatim>\<open>is_authorized_user\<close>\<close>

lemma find_one_admin_Some_iff:
  "(\<exists>g. find_one_admin coll org_id user_id = Some g)
     \<longleftrightarrow> (\<exists>g. find_one coll org_id = Some g \<and> user_id \<in> set (admins g))"
  by (auto simp add: find_one_admin_def find_one_def split: option.splits if_splits)

lemma is_authorized_user_run:
  assumes "validate [org_id, user_id] = None" and "reachable c"
  shows "is_authorized_user validate c org_id user_id =
     (if \<exists>g. find_one (Organizations (db c)) org_id = Some g \<and> user_id \<in> set (admins g)
      then Inr ()
      else Inl (HTTPException HTTP_401_UNAUTHORIZED ''Error: Unauthorized user.''))"
proof (cases "find_one_admin (Organizations (db c)) org_id user_id")
  case None
  then have "\<not> (\<exists>g. find_one (Organizations (db c)) org_id = Some g \<and> user_id \<in> set (admins g))"
    using find_one_admin_Some_iff [of "Organizations (db c)" org_id user_id] by simp
  then show ?thesis
    using assms None by (simp add: is_authorized_user_def is_authorized_user_block_def)
next
  case (Some g)
  then have "\<exists>g. find_one (Organizations (db c)) org_id = Some g \<and> user_id \<in> set (admins g)"
    using find_one_admin_Some_iff [of "Organizations (db c)" org_id user_id] by blast
  then show ?thesis
    using assms Some by (simp add: is_authorized_user_def is_authorized_user_block_def)
qed

text \<open>The collaborator that the middleware calls accepts exactly the admins.\<close>

lemma store_authorizes_iff_admin:
  assumes "validate [org_id, user_id] = None" and "reachable c"
  shows "store_authorizes validate c org_id user_id
           = (\<exists>g. find_one (Organizations (db c)) org_id = Some g \<and> user_id \<in> set (admins g))"
  using assms by (simp add: store_authorizes_def is_authorized_user_run)

lemma add_member_not_found:
  assumes "validate [org_id, current_user] = None" and "reachable c"
    and "find_one (Organizations (db c)) org_id = None"
  shows "add_member validate c current_user org_id
           = (Inl (HTTPException HTTP_404_NOT_FOUND ''Error: Organization not found.''), c)"
  using assms by (simp add: add_member_run add_member_block_def)



subsection \<open>\<^verbatim>\<open>add_member\<close>\<close>

lemma add_member_block_Inr:
  assumes "add_member_block u org_id d = Inr (r, d')"
  shows "\<exists>g w. find_one (Organizations d) org_id = Some g
       \<and> u \<notin> set (members g) \<and> \<not> is_private g
       \<and> find_one (Users d) u = Some w
       \<and> d' = d\<lparr>Organizations := AList.map_entry org_id (push_members u) (Organizations d),
                Users := AList.map_entry u (push_organizations org_id) (Users d)\<rparr>"
proof (cases "find_one (Organizations d) org_id")
  case None
  with assms show ?thesis by (simp add: add_member_block_def)
next
  case (Some g)
  note g = Some
  show ?thesis
  proof (cases "find_one (Users d) u")
    case None
    with assms g show ?thesis
      by (simp add: add_member_block_def update_one_eq split: if_splits)
  next
    case (Some w)
    with assms g show ?thesis
      by (simp add: add_member_block_def update_one_eq split: if_splits)
  qed
qed

lemma add_member_Inr_block:
  assumes "fst (add_member validate c u org_id) = Inr r"
  shows "validate [org_id, u] = None \<and> reachable c
       \<and> add_member_block u org_id (db c) = Inr (r, db (snd (add_member validate c u org_id)))
       \<and> reachable (snd (add_member validate c u org_id))"
proof -
  from assms have v: "validate [org_id, u] = None"
    by (cases "validate [org_id, u]") (simp_all add: add_member_def)
  from assms v have rc: "reachable c"
    by (cases "reachable c")
      (simp_all add: add_member_def start_transaction_def reachable_start_session)
  note run = add_member_run [of validate org_id u c, OF v rc]
  from assms obtain d' where b: "add_member_block u org_id (db c) = Inr (r, d')"
    by (cases "add_member_block u org_id (db c)") (auto simp add: run)
  then show ?thesis
    using v rc by (simp add: run)
qed

lemma add_member_Inl_unchanged:
  assumes "fst (add_member validate c u org_id) = Inl e"
  shows "db (snd (add_member validate c u org_id)) = db c"
proof (cases "validate [org_id, u]")
  case (Some a)
  then show ?thesis by (simp add: add_member_def)
next
  case None
  have "db (snd (start_transaction (add_member_block u org_id) (start_session c))) = db c"
    using assms None
    by (auto simp add: add_member_def start_transaction_def db_start_session
        split: sum.splits prod.splits if_splits)
  then show ?thesis
    using None by (simp add: add_member_def snd_finally db_end_session)
qed

lemma add_member_conflict:
  assumes "validate [org_id, u] = None" and "reachable c"
    and "find_one (Organizations (db c)) org_id = Some g" and "u \<in> set (members g)"
  shows "add_member validate c u org_id
           = (Inl (HTTPException HTTP_400_BAD_REQUEST
                ''Error: User is already a member of the organization.''), c)"
  using assms by (simp add: add_member_run add_member_block_def)

lemma add_member_private:
  assumes "validate [org_id, u] = None" and "reachable c"
    and "find_one (Organizations (db c)) org_id = Some g" and "u \<notin> set (members g)"
    and "is_private g"
  shows "add_member validate c u org_id
           = (Inl (HTTPException HTTP_401_UNAUTHORIZED ''Error: Organization is private.''), c)"
  using assms by (simp add: add_member_run add_member_block_def)

lemma add_member_no_user:
  assumes "validate [org_id, u] = None" and "reachable c"
    and "find_one (Organizations (db c)) org_id = Some g" and "u \<notin> set (members g)"
    and "\<not> is_private g" and "find_one (Users (db c)) u = None"
  shows "add_member validate c u org_id
           = (Inl (HTTPException HTTP_400_BAD_REQUEST ''Error: Unable to update user.''), c)"
  using assms by (simp add: add_member_run add_member_block_def update_one_eq)

lemma add_member_success:
  assumes "validate [org_id, u] = None" and "reachable c"
    and "find_one (Organizations (db c)) org_id = Some g" and "u \<notin> set (members g)"
    and "\<not> is_private g" and "find_one (Users (db c)) u = Some w"
  shows "add_member validate c u org_id
           = (Inr (Created ''Success: User added to the organization.''),
              c\<lparr>db := (db c)\<lparr>Organizations :=
                        AList.map_entry org_id (push_members u) (Organizations (db c)),
                      Users :=
                        AList.map_entry u (push_organizations org_id) (Users (db c))\<rparr>\<rparr>)"
  using assms by (simp add: add_member_run add_member_block_def update_one_eq)

text \<open>
  Claim C3. With ids that pass validation and a reachable store, \<^verbatim>\<open>add_member\<close> fails
  with the not-found failure (404) when the organization is missing, with the conflict
  failure (400, "already a member") when the user is among its members, whether the
  organization is private or not, and with the authorization failure (401, "private")
  when the user is not a member and the organization is private. It succeeds whenever
  the organization exists and is not private, the user is not among its members and
  the user has a record; on success the user is appended to the organization's members
  and the organization to the user's organizations. Every failure leaves the data unchanged; one of them is the update of
  a user without a record, which changes nothing and aborts the update of the members.
  A second call after a successful one fails with the conflict failure, and a private
  organization refuses every call.
\<close>

theorem add_member_contract:
  assumes "validate [org_id, u] = None" and "reachable c"
  shows "(find_one (Organizations (db c)) org_id = None \<longrightarrow>
            fst (add_member validate c u org_id)
              = Inl (HTTPException HTTP_404_NOT_FOUND ''Error: Organization not found.''))
       \<and> (find_one (Organizations (db c)) org_id = Some g \<and> u \<in> set (members g) \<longrightarrow>
            fst (add_member validate c u org_id)
              = Inl (HTTPException HTTP_400_BAD_REQUEST
                       ''Error: User is already a member of the organization.''))
       \<and> (find_one (Organizations (db c)) org_id = Some g \<and> u \<notin> set (members g)
            \<and> is_private g \<longrightarrow>
            fst (add_member validate c u org_id)
              = Inl (HTTPException HTTP_401_UNAUTHORIZED ''Error: Organization is private.''))
       \<and> (find_one (Organizations (db c)) org_id = Some g \<and> u \<notin> set (members g)
            \<and> \<not> is_private g \<and> find_one (Users (db c)) u = None \<longrightarrow>
            fst (add_member validate c u org_id)
              = Inl (HTTPException HTTP_400_BAD_REQUEST ''Error: Unable to update user.'')
            \<and> find_one (Organizations (db (snd (add_member validate c u org_id)))) org_id
              = Some g)
       \<and> (fst (add_member validate c u org_id) = Inl e \<longrightarrow>
            db (snd (add_member validate c u org_id)) = db c)
       \<and> (fst (add_member validate c u org_id) = Inr r \<longrightarrow>
            (\<exists>g' w. find_one (Organizations (db c)) org_id = Some g'
               \<and> find_one (Users (db c)) u = Some w
               \<and> find_one (Organizations (db (snd (add_member validate c u org_id)))) org_id
                   = Some (g'\<lparr>members := members g' @ [u]\<rparr>)
               \<and> find_one (Users (db (snd (add_member validate c u org_id)))) u
                   = Some (w\<lparr>organizations := organizations w @ [org_id]\<rparr>))
            \<and> fst (add_member validate (snd (add_member validate c u org_id)) u org_id)
                = Inl (HTTPException HTTP_400_BAD_REQUEST
                         ''Error: User is already a member of the organization.''))
       \<and> (find_one (Organizations (db c)) org_id = Some g \<and> is_private g \<longrightarrow>
            (\<exists>e'. fst (add_member validate c u org_id) = Inl e'))
       \<and> (find_one (Organizations (db c)) org_id = Some g \<and> u \<notin> set (members g)
            \<and> \<not> is_private g \<and> find_one (Users (db c)) u = Some w \<longrightarrow>
            fst (add_member validate c u org_id)
              = Inr (Created ''Success: User added to the organization.'')
            \<and> find_one (Organizations (db (snd (add_member validate c u org_id)))) org_id
                = Some (g\<lparr>members := members g @ [u]\<rparr>)
            \<and> find_one (Users (db (snd (add_member validate c u org_id)))) u
                = Some (w\<lparr>organizations := organizations w @ [org_id]\<rparr>)
            \<and> fst (add_member validate (snd (add_member validate c u org_id)) u org_id)
                = Inl (HTTPException HTTP_400_BAD_REQUEST
                         ''Error: User is already a member of the organization.''))"
proof (intro conjI impI)
  note v = assms(1) and rc = assms(2)
  show "fst (add_member validate c u org_id)
          = Inl (HTTPException HTTP_404_NOT_FOUND ''Error: Organization not found.'')"
    if "find_one (Organizations (db c)) org_id = None"
    using that v rc by (simp add: add_member_not_found)
  show "fst (add_member validate c u org_id)
          = Inl (HTTPException HTTP_400_BAD_REQUEST
                   ''Error: User is already a member of the organization.'')"
    if "find_one (Organizations (db c)) org_id = Some g \<and> u \<in> set (members g)"
    using that v rc by (simp add: add_member_conflict)
  show "fst (add_member validate c u org_id)
          = Inl (HTTPException HTTP_401_UNAUTHORIZED ''Error: Organization is private.'')"
    if "find_one (Organizations (db c)) org_id = Some g \<and> u \<notin> set (members g) \<and> is_private g"
    using that v rc by (simp add: add_member_private)
  show "fst (add_member validate c u org_id)
          = Inl (HTTPException HTTP_400_BAD_REQUEST ''Error: Unable to update user.'')"
    if "find_one (Organizations (db c)) org_id = Some g \<and> u \<notin> set (members g)
          \<and> \<not> is_private g \<and> find_one (Users (db c)) u = None"
    using that v rc by (simp add: add_member_no_user)
  show "find_one (Organizations (db (snd (add_member validate c u org_id)))) org_id = Some g"
    if "find_one (Organizations (db c)) org_id = Some g \<and> u \<notin> set (members g)
          \<and> \<not> is_private g \<and> find_one (Users (db c)) u = None"
    using that v rc by (simp add: add_member_no_user)
  show "db (snd (add_member validate c u org_id)) = db c"
    if "fst (add_member validate c u org_id) = Inl e"
    using that by (rule add_member_Inl_unchanged)
  show "\<exists>e'. fst (add_member validate c u org_id) = Inl e'"
    if h: "find_one (Organizations (db c)) org_id = Some g \<and> is_private g"
  proof (cases "u \<in> set (members g)")
    case True
    with h v rc show ?thesis by (simp add: add_member_conflict)
  next
    case False
    with h v rc show ?thesis by (simp add: add_member_private)
  qed
next
  assume h: "find_one (Organizations (db c)) org_id = Some g \<and> u \<notin> set (members g)
            \<and> \<not> is_private g \<and> find_one (Users (db c)) u = Some w"
  let ?c' = "snd (add_member validate c u org_id)"
  from h assms have run: "add_member validate c u org_id
           = (Inr (Created ''Success: User added to the organization.''),
              c\<lparr>db := (db c)\<lparr>Organizations :=
                        AList.map_entry org_id (push_members u) (Organizations (db c)),
                      Users :=
                        AList.map_entry u (push_organizations org_id) (Users (db c))\<rparr>\<rparr>)"
    by (simp add: add_member_success)
  show "fst (add_member validate c u org_id)
          = Inr (Created ''Success: User added to the organization.'')"
    by (simp add: run)
  from h show 1: "find_one (Organizations (db ?c')) org_id
          = Some (g\<lparr>members := members g @ [u]\<rparr>)"
    by (simp add: run find_one_map_entry push_members_def)
  from h show "find_one (Users (db ?c')) u
          = Some (w\<lparr>organizations := organizations w @ [org_id]\<rparr>)"
    by (simp add: run find_one_map_entry push_organizations_def)
  from assms(2) have rc': "reachable ?c'"
    by (simp add: run)
  have m: "u \<in> set (members (g\<lparr>members := members g @ [u]\<rparr>))"
    by simp
  from add_member_conflict [of validate org_id u ?c', OF assms(1) rc' 1 m]
  show "fst (add_member validate ?c' u org_id)
          = Inl (HTTPException HTTP_400_BAD_REQUEST
                   ''Error: User is already a member of the organization.'')"
    by simp
next
  assume ok: "fst (add_member validate c u org_id) = Inr r"
  let ?c' = "snd (add_member validate c u org_id)"
  from add_member_Inr_block [OF ok]
  have b: "add_member_block u org_id (db c) = Inr (r, db ?c')" and rc': "reachable ?c'"
    by simp_all
  from add_member_block_Inr [OF b]
  obtain g' w where g': "find_one (Organizations (db c)) org_id = Some g'"
    and w: "find_one (Users (db c)) u = Some w"
    and d': "db ?c' = (db c)\<lparr>Organizations :=
                 AList.map_entry org_id (push_members u) (Organizations (db c)),
               Users := AList.map_entry u (push_organizations org_id) (Users (db c))\<rparr>"
    by blast
  have 1: "find_one (Organizations (db ?c')) org_id = Some (g'\<lparr>members := members g' @ [u]\<rparr>)"
    by (simp add: d' find_one_map_entry g' push_members_def)
  have 2: "find_one (Users (db ?c')) u = Some (w\<lparr>organizations := organizations w @ [org_id]\<rparr>)"
    by (simp add: d' find_one_map_entry w push_organizations_def)
  from g' w 1 2
  show "\<exists>g' w. find_one (Organizations (db c)) org_id = Some g'
          \<and> find_one (Users (db c)) u = Some w
          \<and> find_one (Organizations (db ?c')) org_id = Some (g'\<lparr>members := members g' @ [u]\<rparr>)
          \<and> find_one (Users (db ?c')) u = Some (w\<lparr>organizations := organizations w @ [org_id]\<rparr>)"
    by blast
  have m: "u \<in> set (members (g'\<lparr>members := members g' @ [u]\<rparr>))"
    by simp
  from add_member_conflict [of validate org_id u ?c', OF assms(1) rc' 1 m]
  show "fst (add_member validate ?c' u org_id)
          = Inl (HTTPException HTTP_400_BAD_REQUEST
                   ''Error: User is already a member of the organization.'')"
    by simp
qed

text \<open>
  In the example store \<open>u3\<close> joins \<open>o1\<close> and is refused the second time; \<open>u2\<close> is a
  member already; \<open>o9\<close> does not exist; \<open>u9\<close> has no record; \<open>o2\<close> is private.
\<close>

theorem add_member_contract_witness:
  "fst (add_member accept_ids store_acme ''u3'' ''o1'')
     = Inr (Created ''Success: User added to the organization.'')
   \<and> fst (add_member accept_ids (snd (add_member accept_ids store_acme ''u3'' ''o1''))
        ''u3'' ''o1'')
     = Inl (HTTPException HTTP_400_BAD_REQUEST
              ''Error: User is already a member of the organization.'')
   \<and> fst (add_member accept_ids store_acme ''u2'' ''o1'')
     = Inl (HTTPException HTTP_400_BAD_REQUEST
              ''Error: User is already a member of the organization.'')
   \<and> fst (add_member accept_ids store_acme ''u3'' ''o9'')
     = Inl (HTTPException HTTP_404_NOT_FOUND ''Error: Organization not found.'')
   \<and> fst (add_member accept_ids store_acme ''u9'' ''o1'')
     = Inl (HTTPException HTTP_400_BAD_REQUEST ''Error: Unable to update user.'')
   \<and> fst (add_member accept_ids store_secret ''u3'' ''o2'')
     = Inl (HTTPException HTTP_401_UNAUTHORIZED ''Error: Organization is private.'')"
proof -
  let ?ok = "Created ''Success: User added to the organization.''"
  have v: "accept_ids [''o1'', ''u3''] = None" "accept_ids [''o1'', ''u2''] = None"
    "accept_ids [''o9'', ''u3''] = None" "accept_ids [''o1'', ''u9''] = None"
    "accept_ids [''o2'', ''u3''] = None"
    by (simp_all add: accept_ids_def)
  have r: "reachable store_acme" "reachable store_secret"
    by (simp_all add: store_acme_def store_secret_def)
  have o1: "find_one (Organizations (db store_acme)) ''o1'' = Some acme"
    and o9: "find_one (Organizations (db store_acme)) ''o9'' = None"
    and o2: "find_one (Organizations (db store_secret)) ''o2'' = Some secret"
    and u9: "find_one (Users (db store_acme)) ''u9'' = None"
    and u3: "find_one (Users (db store_acme)) ''u3'' = Some \<lparr>organizations = []\<rparr>"
    by (simp_all add: store_acme_def store_secret_def find_one_def)
  have m: "''u2'' \<in> set (members acme)" "''u3'' \<notin> set (members acme)"
    "''u9'' \<notin> set (members acme)" "\<not> is_private acme"
    "''u3'' \<notin> set (members secret)" "is_private secret"
    by (simp_all add: acme_def secret_def)
  note a = add_member_contract
    [of accept_ids "''o1''" "''u3''" store_acme acme AttributeError ?ok
       "\<lparr>organizations = []\<rparr>", OF v(1) r(1)]
  note b = add_member_contract
    [of accept_ids "''o1''" "''u2''" store_acme acme AttributeError ?ok
       "\<lparr>organizations = []\<rparr>", OF v(2) r(1)]
  note c = add_member_contract
    [of accept_ids "''o9''" "''u3''" store_acme acme AttributeError ?ok
       "\<lparr>organizations = []\<rparr>", OF v(3) r(1)]
  note d = add_member_contract
    [of accept_ids "''o1''" "''u9''" store_acme acme AttributeError ?ok
       "\<lparr>organizations = []\<rparr>", OF v(4) r(1)]
  note e = add_member_contract
    [of accept_ids "''o2''" "''u3''" store_secret secret AttributeError ?ok
       "\<lparr>organizations = []\<rparr>", OF v(5) r(2)]
  have ha: "find_one (Organizations (db store_acme)) ''o1'' = Some acme
      \<and> ''u3'' \<notin> set (members acme) \<and> \<not> is_private acme
      \<and> find_one (Users (db store_acme)) ''u3'' = Some \<lparr>organizations = []\<rparr>"
    using o1 m(2,4) u3 by (intro conjI)
  have hb: "find_one (Organizations (db store_acme)) ''o1'' = Some acme
      \<and> ''u2'' \<in> set (members acme)"
    using o1 m(1) by (intro conjI)
  have hd: "find_one (Organizations (db store_acme)) ''o1'' = Some acme
      \<and> ''u9'' \<notin> set (members acme) \<and> \<not> is_private acme
      \<and> find_one (Users (db store_acme)) ''u9'' = None"
    using o1 m(3,4) u9 by (intro conjI)
  have he: "find_one (Organizations (db store_secret)) ''o2'' = Some secret
      \<and> ''u3'' \<notin> set (members secret) \<and> is_private secret"
    using o2 m(5,6) by (intro conjI)
  note success = a [THEN conjunct2, THEN conjunct2, THEN conjunct2, THEN conjunct2,
      THEN conjunct2, THEN conjunct2, THEN conjunct2, THEN mp, OF ha]
  have 1: "fst (add_member accept_ids store_acme ''u3'' ''o1'') = Inr ?ok"
    by (rule success [THEN conjunct1])
  have 2: "fst (add_member accept_ids (snd (add_member accept_ids store_acme ''u3'' ''o1''))
             ''u3'' ''o1'')
           = Inl (HTTPException HTTP_400_BAD_REQUEST
                    ''Error: User is already a member of the organization.'')"
    by (rule success [THEN conjunct2, THEN conjunct2, THEN conjunct2])
  have 3: "fst (add_member accept_ids store_acme ''u2'' ''o1'')
           = Inl (HTTPException HTTP_400_BAD_REQUEST
                    ''Error: User is already a member of the organization.'')"
    by (rule b [THEN conjunct2, THEN conjunct1, THEN mp, OF hb])
  have 4: "fst (add_member accept_ids store_acme ''u3'' ''o9'')
           = Inl (HTTPException HTTP_404_NOT_FOUND ''Error: Organization not found.'')"
    by (rule c [THEN conjunct1, THEN mp, OF o9])
  have 5: "fst (add_member accept_ids store_acme ''u9'' ''o1'')
           = Inl (HTTPException HTTP_400_BAD_REQUEST ''Error: Unable to update user.'')"
    by (rule d [THEN conjunct2, THEN conjunct2, THEN conjunct2, THEN conjunct1, THEN mp,
          OF hd, THEN conjunct1])
  have 6: "fst (add_member accept_ids store_secret ''u3'' ''o2'')
           = Inl (HTTPException HTTP_401_UNAUTHORIZED ''Error: Organization is private.'')"
    by (rule e [THEN conjunct2, THEN conjunct2, THEN conjunct1, THEN mp, OF he])
  from 1 2 3 4 5 6 show ?thesis
    by (intro conjI)
qed

section \<open>Properties of the middleware\<close>

text \<open>
  Claim C10. For every path and method in \<^verbatim>\<open>UNAUTHORIZED_ENDPOINTS\<close>,
  \<^verbatim>\<open>check_authorization\<close> returns without a call to a collaborator even when the
  user is \<^verbatim>\<open>None\<close>: the exemption is tested before the missing user.
  \<^verbatim>\<open>POST /users\<close> is in the list.
\<close>

theorem check_authorization_exempt:
  assumes "(request_path, request_method) \<in> set UNAUTHORIZED_ENDPOINTS"
  shows "check_authorization users_ok orgs_ok None request_path request_method = ([], Inr ())
       \<and> (''/users'', ''POST'') \<in> set UNAUTHORIZED_ENDPOINTS"
  using assms
  by (simp add: check_authorization_def is_unauthorized_endpoint_def)
    (simp add: UNAUTHORIZED_ENDPOINTS_def)

text \<open>At \<^verbatim>\<open>POST /users\<close>.\<close>

theorem check_authorization_exempt_witness:
  "check_authorization accept_user accept_admin None ''/users'' ''POST'' = ([], Inr ())
   \<and> (''/users'', ''POST'') \<in> set UNAUTHORIZED_ENDPOINTS"
proof -
  have h: "(''/users'', ''POST'') \<in> set UNAUTHORIZED_ENDPOINTS"
    by (simp add: UNAUTHORIZED_ENDPOINTS_def)
  show ?thesis
    by (rule check_authorization_exempt [OF h])
qed

subsection \<open>Routes\<close>

lemma str_split_not_Nil: "str_split c s \<noteq> []"
  by (induction s) (auto split: list.splits)

lemma length_str_split:
  "length (str_split c s) = Suc (length (filter (\<lambda>x. x = c) s))"
proof (induction s)
  case Nil
  then show ?case by simp
next
  case (Cons x s)
  then show ?case
    using str_split_not_Nil [of c s] by (cases "str_split c s") auto
qed

lemma str_split_no_sep: "c \<notin> set xs \<Longrightarrow> str_split c xs = [xs]"
  by (induction xs) auto

lemma str_split_at_sep:
  "c \<notin> set xs \<Longrightarrow> str_split c (xs @ c # ys) = xs # str_split c ys"
  by (induction xs) auto

lemma str_split_single: "str_split c s = [w] \<Longrightarrow> s = w"
proof (induction s arbitrary: w)
  case Nil
  then show ?case by simp
next
  case (Cons x s)
  show ?case
  proof (cases "x = c")
    case True
    with Cons.prems show ?thesis
      using str_split_not_Nil [of c s] by simp
  next
    case False
    with Cons.prems obtain v vs where v: "str_split c s = v # vs"
      using str_split_not_Nil [of c s] by (cases "str_split c s") auto
    with Cons.prems False have "vs = []" and "w = x # v" by auto
    with v Cons.IH [of v] show ?thesis by simp
  qed
qed

lemma str_split_Cons:
  "str_split c s = w # w' # ws \<Longrightarrow> \<exists>rest. s = w @ c # rest \<and> str_split c rest = w' # ws"
proof (induction s arbitrary: w)
  case Nil
  then show ?case by simp
next
  case (Cons x s)
  show ?case
  proof (cases "x = c")
    case True
    with Cons.prems show ?thesis by auto
  next
    case False
    with Cons.prems obtain v vs where v: "str_split c s = v # vs"
      using str_split_not_Nil [of c s] by (cases "str_split c s") auto
    with Cons.prems False have "vs = w' # ws" and "w = x # v" by auto
    with v Cons.IH [of v] show ?thesis by auto
  qed
qed

lemma spec_opportunities_route_path:
  assumes "spec_opportunities_route p"
  shows "\<exists>i. i \<noteq> [] \<and> p = ''/organizations/'' @ i @ ''/opportunities''
           \<and> str_split CHR ''/'' p = [[], ''organizations'', i, ''opportunities'']"
proof -
  from assms obtain i where i: "i \<noteq> []"
    and s: "str_split CHR ''/'' p = [[], ''organizations'', i, ''opportunities'']"
    by (auto simp add: spec_opportunities_route_def split: list.splits)
  from str_split_Cons [OF s] obtain r1 where r1: "p = [] @ CHR ''/'' # r1"
    and s1: "str_split CHR ''/'' r1 = [''organizations'', i, ''opportunities'']"
    by blast
  from str_split_Cons [OF s1] obtain r2 where r2: "r1 = ''organizations'' @ CHR ''/'' # r2"
    and s2: "str_split CHR ''/'' r2 = [i, ''opportunities'']"
    by blast
  from str_split_Cons [OF s2] obtain r3 where r3: "r2 = i @ CHR ''/'' # r3"
    and s3: "str_split CHR ''/'' r3 = [''opportunities'']"
    by blast
  from str_split_single [OF s3] have "r3 = ''opportunities''" .
  with r1 r2 r3 have "p = ''/organizations/'' @ i @ ''/opportunities''" by simp
  with i s show ?thesis by blast
qed

lemma spec_opportunities_routeI:
  assumes "i \<noteq> []" and "CHR ''/'' \<notin> set i"
  shows "spec_opportunities_route (''/organizations/'' @ i @ ''/opportunities'')"
  using assms by (simp add: spec_opportunities_route_def str_split_at_sep)

lemma admin_route_two_separators:
  assumes "prefix ''/organizations'' p" and "suffix ''/opportunities'' p"
  shows "2 \<le> length (filter (\<lambda>x. x = CHR ''/'') p)"
proof -
  from assms(1) obtain r where r: "p = ''/organizations'' @ r"
    by (auto simp add: prefix_def)
  from assms(2) obtain q where q: "p = q @ ''/opportunities''"
    by (auto simp add: suffix_def)
  have "CHR ''/'' \<in> set r"
  proof (cases q)
    case Nil
    with r q show ?thesis by simp
  next
    case (Cons x q')
    with r q have "''organizations'' @ r = q' @ ''/opportunities''" by simp
    then have "CHR ''/'' \<in> set (''organizations'' @ r)" by simp
    then show ?thesis by simp
  qed
  then have "filter (\<lambda>x. x = CHR ''/'') r \<noteq> []"
    by (simp add: filter_empty_conv)
  then obtain y ys where "filter (\<lambda>x. x = CHR ''/'') r = y # ys"
    by (cases "filter (\<lambda>x. x = CHR ''/'') r") auto
  then show ?thesis by (simp add: r)
qed

lemma admin_route_index:
  assumes "prefix ''/organizations'' p" and "suffix ''/opportunities'' p"
  shows "\<exists>i. index (str_split CHR ''/'' p) 2 = Some i"
  using admin_route_two_separators [OF assms]
  by (simp add: index_def length_str_split)

lemma spec_route_is_admin_route:
  assumes "spec_opportunities_route p"
  shows "prefix ''/organizations'' p \<and> suffix ''/opportunities'' p
       \<and> (\<exists>i. i \<noteq> [] \<and> index (str_split CHR ''/'' p) 2 = Some i
              \<and> p = ''/organizations/'' @ i @ ''/opportunities'')"
proof -
  from spec_opportunities_route_path [OF assms] obtain i where i: "i \<noteq> []"
    and p: "p = ''/organizations/'' @ i @ ''/opportunities''"
    and s: "str_split CHR ''/'' p = [[], ''organizations'', i, ''opportunities'']"
    by blast
  have 1: "prefix ''/organizations'' p" by (simp add: p)
  have 2: "suffix ''/opportunities'' p"
    unfolding p by (rule suffixI [of _ "''/organizations/'' @ i"]) simp
  have 3: "index (str_split CHR ''/'' p) 2 = Some i" by (simp add: s index_def)
  from 1 2 3 i p show ?thesis by blast
qed

lemma fst_check_activated:
  "fst (check_activated ua u p m) =
     (if (m = ''POST'' \<and> p = ''/organizations'') \<or> (p = ''/ws'' \<and> m = ''GET'')
      then [Users_is_authorized_user u] else [])"
  by (simp add: check_activated_def)

lemma fst_check_admin:
  "fst (check_admin oa u p m) =
     (if m = ''POST'' \<and> prefix ''/organizations'' p \<and> suffix ''/opportunities'' p
      then [Organizations_is_authorized_user (the (index (str_split CHR ''/'' p) 2)) u]
      else [])"
proof (cases "m = ''POST'' \<and> prefix ''/organizations'' p \<and> suffix ''/opportunities'' p")
  case True
  then obtain i where "index (str_split CHR ''/'' p) 2 = Some i"
    using admin_route_index by blast
  with True show ?thesis by (simp add: check_admin_def)
next
  case False
  then show ?thesis by (auto simp add: check_admin_def)
qed

lemma activated_route_not_admin_route:
  assumes "(m = ''POST'' \<and> p = ''/organizations'') \<or> (p = ''/ws'' \<and> m = ''GET'')"
  shows "\<not> (m = ''POST'' \<and> prefix ''/organizations'' p \<and> suffix ''/opportunities'' p)"
  using assms by (auto simp add: suffix_def Cons_eq_append_conv append_eq_Cons_conv)

lemma fst_check_authorization:
  assumes "\<not> is_unauthorized_endpoint p m"
  shows "fst (check_authorization ua oa (Some u) p m)
           = fst (check_activated ua u p m) @ fst (check_admin oa u p m)"
proof (cases "(m = ''POST'' \<and> p = ''/organizations'') \<or> (p = ''/ws'' \<and> m = ''GET'')")
  case True
  from activated_route_not_admin_route [OF True]
  have "fst (check_admin oa u p m) = []" by (simp add: fst_check_admin)
  then show ?thesis
    using assms
    by (cases "check_admin oa u p m")
      (simp add: check_authorization_def split: prod.splits sum.splits)
next
  case False
  then have "check_activated ua u p m = ([], Inr ())"
    by (simp add: check_activated_def)
  then show ?thesis
    using assms
    by (cases "check_admin oa u p m") (simp add: check_authorization_def)
qed

lemma snd_check_authorization:
  assumes "\<not> is_unauthorized_endpoint p m"
  shows "snd (check_authorization ua oa (Some u) p m)
           = (case snd (check_activated ua u p m) of
                Inl e \<Rightarrow> Inl e
              | Inr _ \<Rightarrow> snd (check_admin oa u p m))"
  using assms
  by (cases "check_activated ua u p m"; cases "check_admin oa u p m")
    (simp add: check_authorization_def split: sum.splits)

lemma snd_check_activated:
  "snd (check_activated ua u p m) =
     (if ((m = ''POST'' \<and> p = ''/organizations'') \<or> (p = ''/ws'' \<and> m = ''GET''))
         \<and> \<not> ua u
      then Inl (PyException ''Exception''
             ''User is not authorized to access this resource, please activate your account.''
             None)
      else Inr ())"
  by (simp add: check_activated_def)

lemma snd_check_admin:
  assumes "index (str_split CHR ''/'' p) 2 = Some i"
  shows "snd (check_admin oa u p m) =
     (if m = ''POST'' \<and> prefix ''/organizations'' p \<and> suffix ''/opportunities'' p
         \<and> \<not> oa i u
      then Inl (PyException ''Exception''
             ''User is not authorized to access this resource.'' None)
      else Inr ())"
  using assms by (simp add: check_admin_def)

lemma snd_check_admin_other:
  assumes "\<not> (m = ''POST'' \<and> prefix ''/organizations'' p \<and> suffix ''/opportunities'' p)"
  shows "snd (check_admin oa u p m) = Inr ()"
  using assms by (auto simp add: check_admin_def)

text \<open>
  Claim C7 says that the admin check is made exactly for the \<^verbatim>\<open>POST\<close> requests whose
  path has the shape \<^verbatim>\<open>/organizations/{id}/opportunities\<close>. The source tests
  \<^verbatim>\<open>startswith("/organizations")\<close> and \<^verbatim>\<open>endswith("/opportunities")\<close>, which also
  holds of a path with more segments: there the check is made as well, on the segment
  at index 2.
\<close>

theorem check_authorization_route_counterexample:
  "\<not> spec_opportunities_route ''/organizations/o1/extra/opportunities''
   \<and> fst (check_authorization accept_user accept_admin (Some ''u1'')
          ''/organizations/o1/extra/opportunities'' ''POST'')
       = [Organizations_is_authorized_user ''o1'' ''u1'']"
  by (simp add: spec_opportunities_route_def check_authorization_def
      is_unauthorized_endpoint_def UNAUTHORIZED_ENDPOINTS_def check_activated_def
      check_admin_def index_def suffix_to_prefix accept_admin_def)

text \<open>
  Claim C7 as amended. For a request that is not exempt and has a user,
  \<^verbatim>\<open>check_authorization\<close> calls the users' \<^verbatim>\<open>is_authorized_user\<close> exactly for
  \<^verbatim>\<open>POST /organizations\<close> and \<^verbatim>\<open>GET /ws\<close>, and the store's \<^verbatim>\<open>is_authorized_user\<close>
  exactly for the \<^verbatim>\<open>POST\<close> requests whose path starts with \<^verbatim>\<open>/organizations\<close> and ends
  with \<^verbatim>\<open>/opportunities\<close>, on the segment at index 2 of the path split at the slashes.
  Every path of the shape \<^verbatim>\<open>/organizations/{id}/opportunities\<close> is among them, with
  \<^verbatim>\<open>{id}\<close> as that segment. A request for which neither holds passes with no call, and
  a request without a user is refused with "Please login". On the first two routes the
  request passes exactly when the users' collaborator accepts the user and is refused
  with "please activate your account" otherwise; on the others with a check it passes
  exactly when the store accepts the user as admin of that segment and is refused with
  "User is not authorized to access this resource." otherwise.
\<close>

theorem check_authorization_delegation:
  assumes "\<not> is_unauthorized_endpoint request_path request_method"
  shows "((Users_is_authorized_user u
             \<in> set (fst (check_authorization ua oa (Some u) request_path request_method)))
          = ((request_method = ''POST'' \<and> request_path = ''/organizations'')
             \<or> (request_path = ''/ws'' \<and> request_method = ''GET'')))
       \<and> ((Organizations_is_authorized_user i u
             \<in> set (fst (check_authorization ua oa (Some u) request_path request_method)))
          = (request_method = ''POST'' \<and> prefix ''/organizations'' request_path
             \<and> suffix ''/opportunities'' request_path
             \<and> index (str_split CHR ''/'' request_path) 2 = Some i))
       \<and> (spec_opportunities_route request_path \<and> request_method = ''POST'' \<longrightarrow>
            (\<exists>j. request_path = ''/organizations/'' @ j @ ''/opportunities''
               \<and> fst (check_authorization ua oa (Some u) request_path request_method)
                   = [Organizations_is_authorized_user j u]))
       \<and> (\<not> ((request_method = ''POST'' \<and> request_path = ''/organizations'')
                \<or> (request_path = ''/ws'' \<and> request_method = ''GET''))
            \<and> \<not> (request_method = ''POST'' \<and> prefix ''/organizations'' request_path
                   \<and> suffix ''/opportunities'' request_path) \<longrightarrow>
            check_authorization ua oa (Some u) request_path request_method = ([], Inr ()))
       \<and> check_authorization ua oa None request_path request_method
            = ([], Inl (PyException ''Exception'' please_login None))
       \<and> ((request_method = ''POST'' \<and> request_path = ''/organizations'')
             \<or> (request_path = ''/ws'' \<and> request_method = ''GET'') \<longrightarrow>
            snd (check_authorization ua oa (Some u) request_path request_method)
              = (if ua u then Inr ()
                 else Inl (PyException ''Exception''
                   ''User is not authorized to access this resource, please activate your account.''
                   None)))
       \<and> (request_method = ''POST'' \<and> prefix ''/organizations'' request_path
             \<and> suffix ''/opportunities'' request_path
             \<and> index (str_split CHR ''/'' request_path) 2 = Some i \<longrightarrow>
            snd (check_authorization ua oa (Some u) request_path request_method)
              = (if oa i u then Inr ()
                 else Inl (PyException ''Exception''
                   ''User is not authorized to access this resource.'' None)))"
proof (intro conjI impI)
  let ?R = "check_authorization ua oa (Some u) request_path request_method"
  let ?activated = "(request_method = ''POST'' \<and> request_path = ''/organizations'')
             \<or> (request_path = ''/ws'' \<and> request_method = ''GET'')"
  let ?admin = "request_method = ''POST'' \<and> prefix ''/organizations'' request_path
             \<and> suffix ''/opportunities'' request_path"
  note calls = fst_check_authorization [OF assms, of ua oa u]
  show "(Users_is_authorized_user u \<in> set (fst ?R)) = ?activated"
    by (simp add: calls fst_check_activated fst_check_admin)
  show "(Organizations_is_authorized_user i u \<in> set (fst ?R))
          = (request_method = ''POST'' \<and> prefix ''/organizations'' request_path
             \<and> suffix ''/opportunities'' request_path
             \<and> index (str_split CHR ''/'' request_path) 2 = Some i)"
  proof (cases ?admin)
    case True
    then obtain k where k: "index (str_split CHR ''/'' request_path) 2 = Some k"
      using admin_route_index by blast
    from True activated_route_not_admin_route [of request_method request_path]
    have "\<not> ?activated" by blast
    with True k have "fst ?R = [Organizations_is_authorized_user k u]"
      unfolding calls by (simp add: fst_check_activated fst_check_admin)
    with True k show ?thesis by auto
  next
    case False
    then show ?thesis
      unfolding calls by (auto simp add: fst_check_activated fst_check_admin)
  qed
  show "\<exists>j. request_path = ''/organizations/'' @ j @ ''/opportunities''
          \<and> fst ?R = [Organizations_is_authorized_user j u]"
    if h: "spec_opportunities_route request_path \<and> request_method = ''POST''"
  proof -
    from h spec_route_is_admin_route [of request_path]
    obtain j where adm: "prefix ''/organizations'' request_path"
        "suffix ''/opportunities'' request_path"
      and j: "index (str_split CHR ''/'' request_path) 2 = Some j"
      and p: "request_path = ''/organizations/'' @ j @ ''/opportunities''"
      by blast
    from h adm have a: ?admin by simp
    with activated_route_not_admin_route [of request_method request_path]
    have "\<not> ?activated" by blast
    with a j have "fst ?R = [Organizations_is_authorized_user j u]"
      unfolding calls by (simp add: fst_check_activated fst_check_admin)
    with p show ?thesis by blast
  qed
  show "?R = ([], Inr ())" if "\<not> ?activated \<and> \<not> ?admin"
  proof -
    from that have "check_activated ua u request_path request_method = ([], Inr ())"
      by (simp add: check_activated_def)
    moreover from that have "check_admin oa u request_path request_method = ([], Inr ())"
      by (auto simp add: check_admin_def)
    ultimately show ?thesis
      using assms by (simp add: check_authorization_def)
  qed
  show "check_authorization ua oa None request_path request_method
          = ([], Inl (PyException ''Exception'' please_login None))"
    using assms by (simp add: check_authorization_def)
  note outcome = snd_check_authorization [OF assms, of ua oa u]
  show "snd ?R = (if ua u then Inr ()
                 else Inl (PyException ''Exception''
                   ''User is not authorized to access this resource, please activate your account.''
                   None))"
    if a: ?activated
  proof -
    from activated_route_not_admin_route [OF a]
    have "snd (check_admin oa u request_path request_method) = Inr ()"
      by (rule snd_check_admin_other)
    with a show ?thesis
      unfolding outcome by (simp add: snd_check_activated)
  qed
  show "snd ?R = (if oa i u then Inr ()
                 else Inl (PyException ''Exception''
                   ''User is not authorized to access this resource.'' None))"
    if h: "request_method = ''POST'' \<and> prefix ''/organizations'' request_path
             \<and> suffix ''/opportunities'' request_path
             \<and> index (str_split CHR ''/'' request_path) 2 = Some i"
  proof -
    from h activated_route_not_admin_route [of request_method request_path]
    have "\<not> ?activated" by blast
    then have "snd (check_activated ua u request_path request_method) = Inr ()"
      by (simp add: snd_check_activated)
    moreover from h have "snd (check_admin oa u request_path request_method)
        = (if oa i u then Inr ()
           else Inl (PyException ''Exception''
                  ''User is not authorized to access this resource.'' None))"
      by (simp add: snd_check_admin)
    ultimately show ?thesis
      unfolding outcome by simp
  qed
qed

text \<open>
  The admins' route of \<open>o1\<close> with the store of the examples as collaborator: \<open>u2\<close>, an
  admin, passes and \<open>u3\<close> is refused. \<^verbatim>\<open>POST /organizations\<close> with a user that is not
  activated is refused. \<^verbatim>\<open>GET /organizations\<close> has no check.
\<close>

theorem check_authorization_delegation_witness:
  "check_authorization accept_user (store_authorizes accept_ids store_acme) (Some ''u2'')
          ''/organizations/o1/opportunities'' ''POST''
     = ([Organizations_is_authorized_user ''o1'' ''u2''], Inr ())
   \<and> check_authorization accept_user (store_authorizes accept_ids store_acme) (Some ''u3'')
          ''/organizations/o1/opportunities'' ''POST''
     = ([Organizations_is_authorized_user ''o1'' ''u3''],
        Inl (PyException ''Exception'' ''User is not authorized to access this resource.''
               None))
   \<and> check_authorization refuse_user accept_admin (Some ''u1'') ''/organizations'' ''POST''
     = ([Users_is_authorized_user ''u1''],
        Inl (PyException ''Exception''
          ''User is not authorized to access this resource, please activate your account.''
          None))
   \<and> check_authorization accept_user accept_admin (Some ''u1'') ''/organizations'' ''POST''
     = ([Users_is_authorized_user ''u1''], Inr ())
   \<and> check_authorization accept_user accept_admin (Some ''u1'') ''/organizations'' ''GET''
     = ([], Inr ())
   \<and> check_authorization accept_user accept_admin None ''/organizations'' ''GET''
     = ([], Inl (PyException ''Exception'' please_login None))"
proof -
  let ?oa = "store_authorizes accept_ids store_acme"
  let ?p = "''/organizations/o1/opportunities''"
  have x: "\<not> is_unauthorized_endpoint ?p ''POST''"
    "\<not> is_unauthorized_endpoint ''/organizations'' ''GET''"
    "\<not> is_unauthorized_endpoint ''/organizations'' ''POST''"
    by (simp_all add: is_unauthorized_endpoint_def UNAUTHORIZED_ENDPOINTS_def)
  have v: "accept_ids [''o1'', ''u2''] = None" "accept_ids [''o1'', ''u3''] = None"
    by (simp_all add: accept_ids_def)
  have r: "reachable store_acme"
    by (simp add: store_acme_def)
  have u2: "?oa ''o1'' ''u2''"
    using v(1) r
    by (simp add: store_authorizes_iff_admin) (simp add: store_acme_def find_one_def acme_def)
  have u3: "\<not> ?oa ''o1'' ''u3''"
    using v(2) r
    by (simp add: store_authorizes_iff_admin) (simp add: store_acme_def find_one_def acme_def)
  have s: "spec_opportunities_route ?p \<and> ''POST'' = ''POST''"
    by (simp add: spec_opportunities_route_def)
  have adm: "''POST'' = ''POST'' \<and> prefix ''/organizations'' ?p
      \<and> suffix ''/opportunities'' ?p \<and> index (str_split CHR ''/'' ?p) 2 = Some ''o1''"
    by (simp add: suffix_to_prefix index_def)
  have act: "(''POST'' = ''POST'' \<and> ''/organizations'' = ''/organizations'')
      \<or> (''/organizations'' = ''/ws'' \<and> ''POST'' = ''GET'')"
    by simp
  have n: "\<not> ((''GET'' = ''POST'' \<and> ''/organizations'' = ''/organizations'')
                \<or> (''/organizations'' = ''/ws'' \<and> ''GET'' = ''GET''))
            \<and> \<not> (''GET'' = ''POST'' \<and> prefix ''/organizations'' ''/organizations''
                   \<and> suffix ''/opportunities'' ''/organizations'')"
    by simp
  note a2 = check_authorization_delegation
    [of ?p "''POST''" "''u2''" accept_user ?oa "''o1''", OF x(1)]
  note a3 = check_authorization_delegation
    [of ?p "''POST''" "''u3''" accept_user ?oa "''o1''", OF x(1)]
  note p0 = check_authorization_delegation
    [of "''/organizations''" "''POST''" "''u1''" refuse_user accept_admin "''o1''", OF x(3)]
  note p1 = check_authorization_delegation
    [of "''/organizations''" "''POST''" "''u1''" accept_user accept_admin "''o1''", OF x(3)]
  note b = check_authorization_delegation
    [of "''/organizations''" "''GET''" "''u1''" accept_user accept_admin "''o1''", OF x(2)]
  have calls2: "fst (check_authorization accept_user ?oa (Some ''u2'') ?p ''POST'')
      = [Organizations_is_authorized_user ''o1'' ''u2'']"
  proof -
    from a2 [THEN conjunct2, THEN conjunct2, THEN conjunct1, THEN mp, OF s]
    obtain j where j: "?p = ''/organizations/'' @ j @ ''/opportunities''"
      and c: "fst (check_authorization accept_user ?oa (Some ''u2'') ?p ''POST'')
                = [Organizations_is_authorized_user j ''u2'']"
      by blast
    from j have "j = ''o1''" by simp
    with c show ?thesis by simp
  qed
  have calls3: "fst (check_authorization accept_user ?oa (Some ''u3'') ?p ''POST'')
      = [Organizations_is_authorized_user ''o1'' ''u3'']"
  proof -
    from a3 [THEN conjunct2, THEN conjunct2, THEN conjunct1, THEN mp, OF s]
    obtain j where j: "?p = ''/organizations/'' @ j @ ''/opportunities''"
      and c: "fst (check_authorization accept_user ?oa (Some ''u3'') ?p ''POST'')
                = [Organizations_is_authorized_user j ''u3'']"
      by blast
    from j have "j = ''o1''" by simp
    with c show ?thesis by simp
  qed
  from a2 [THEN conjunct2, THEN conjunct2, THEN conjunct2, THEN conjunct2, THEN conjunct2,
           THEN conjunct2, THEN mp, OF adm] u2
  have out2: "snd (check_authorization accept_user ?oa (Some ''u2'') ?p ''POST'') = Inr ()"
    by simp
  from a3 [THEN conjunct2, THEN conjunct2, THEN conjunct2, THEN conjunct2, THEN conjunct2,
           THEN conjunct2, THEN mp, OF adm] u3
  have out3: "snd (check_authorization accept_user ?oa (Some ''u3'') ?p ''POST'')
      = Inl (PyException ''Exception'' ''User is not authorized to access this resource.''
               None)"
    by simp
  from p0 [THEN conjunct2, THEN conjunct2, THEN conjunct2, THEN conjunct2, THEN conjunct2,
           THEN conjunct1, THEN mp, OF act]
  have out0: "snd (check_authorization refuse_user accept_admin (Some ''u1'')
                  ''/organizations'' ''POST'')
      = Inl (PyException ''Exception''
          ''User is not authorized to access this resource, please activate your account.''
          None)"
    by (simp add: refuse_user_def)
  from p1 [THEN conjunct2, THEN conjunct2, THEN conjunct2, THEN conjunct2, THEN conjunct2,
           THEN conjunct1, THEN mp, OF act]
  have out1: "snd (check_authorization accept_user accept_admin (Some ''u1'')
                  ''/organizations'' ''POST'') = Inr ()"
    by (simp add: accept_user_def)
  have 1: "check_authorization accept_user ?oa (Some ''u2'') ?p ''POST''
     = ([Organizations_is_authorized_user ''o1'' ''u2''], Inr ())"
    using calls2 out2 by (simp add: prod_eq_iff)
  have 2: "check_authorization accept_user ?oa (Some ''u3'') ?p ''POST''
     = ([Organizations_is_authorized_user ''o1'' ''u3''],
        Inl (PyException ''Exception'' ''User is not authorized to access this resource.''
               None))"
    using calls3 out3 by (simp add: prod_eq_iff)
  have 3: "check_authorization refuse_user accept_admin (Some ''u1'') ''/organizations'' ''POST''
     = ([Users_is_authorized_user ''u1''],
        Inl (PyException ''Exception''
          ''User is not authorized to access this resource, please activate your account.''
          None))"
    using out0
    by (simp add: prod_eq_iff fst_check_authorization [OF x(3)] fst_check_activated
        fst_check_admin suffix_to_prefix)
  have 4: "check_authorization accept_user accept_admin (Some ''u1'') ''/organizations'' ''POST''
     = ([Users_is_authorized_user ''u1''], Inr ())"
    using out1
    by (simp add: prod_eq_iff fst_check_authorization [OF x(3)] fst_check_activated
        fst_check_admin suffix_to_prefix)
  from b [THEN conjunct2, THEN conjunct2, THEN conjunct2, THEN conjunct1, THEN mp, OF n]
  have 5: "check_authorization accept_user accept_admin (Some ''u1'') ''/organizations'' ''GET''
     = ([], Inr ())" .
  from b [THEN conjunct2, THEN conjunct2, THEN conjunct2, THEN conjunct2, THEN conjunct1]
  have 6: "check_authorization accept_user accept_admin None ''/organizations'' ''GET''
     = ([], Inl (PyException ''Exception'' please_login None))" .
  from 1 2 3 4 5 6 show ?thesis by (intro conjI)
qed

subsection \<open>Authentication\<close>

text \<open>
  Claim C8 says that the failure never varies with the underlying error, so that two
  invalid tokens are rejected identically. The handler raises
  \<^verbatim>\<open>Exception("Please login ...") from e\<close>: the exception it raises carries the
  underlying error as its cause. A token without a space and a token that the decoder
  rejects are both refused, with the same message and different causes.
\<close>

theorem authentication_handler_cause_counterexample:
  "authentication_handler decode_rejecting well_formed (Some ''abc'')
     = Inl (PyException ''Exception'' please_login
         (Some (PyException ''IndexError'' ''list index out of range'' None)))
   \<and> authentication_handler decode_rejecting well_formed (Some ''Bearer abc'')
     = Inl (PyException ''Exception'' please_login
         (Some (PyException ''DecodeError'' ''Signature verification failed'' None)))
   \<and> authentication_handler decode_rejecting well_formed (Some ''abc'')
     \<noteq> authentication_handler decode_rejecting well_formed (Some ''Bearer abc'')"
  by (simp add: authentication_handler_def authentication_handler_try_def index_def
      decode_rejecting_def)

text \<open>
  Claim C8 as amended. Every failure of \<^verbatim>\<open>authentication_handler\<close> is an
  \<^verbatim>\<open>Exception\<close> with the one message "Please login to access this resource.",
  whatever the underlying error, which it carries as its cause and nowhere else. It
  fails so on a missing header, on a header with no second word, on a token the decoder
  rejects, on a token without \<^verbatim>\<open>user_id\<close> or with \<^verbatim>\<open>user_id\<close> \<^verbatim>\<open>None\<close>, and on a user id
  that the validator rejects by raising or by a true result. Two failures therefore
  have the same class and the same message.
\<close>

theorem authentication_handler_uniform_message:
  "(authentication_handler decode validate access_token = Inl e \<longrightarrow>
      exc_class e = ''Exception'' \<and> message e = please_login
      \<and> (\<exists>x. authentication_handler_try decode validate access_token = Inl x
             \<and> cause e = Some x))
   \<and> (authentication_handler decode validate access_token = Inl e
      \<and> authentication_handler decode' validate' access_token' = Inl e' \<longrightarrow>
        exc_class e = exc_class e' \<and> message e = message e')
   \<and> (access_token = None \<longrightarrow>
        (\<exists>x. authentication_handler decode validate access_token
               = Inl (PyException ''Exception'' please_login (Some x))))
   \<and> (access_token = Some t \<and> index (str_split CHR '' '' t) 1 = None \<longrightarrow>
        (\<exists>x. authentication_handler decode validate access_token
               = Inl (PyException ''Exception'' please_login (Some x))))
   \<and> (access_token = Some t \<and> index (str_split CHR '' '' t) 1 = Some bearer_token
      \<and> decode bearer_token = Inl d \<longrightarrow>
        authentication_handler decode validate access_token
          = Inl (PyException ''Exception'' please_login (Some d)))
   \<and> (access_token = Some t \<and> index (str_split CHR '' '' t) 1 = Some bearer_token
      \<and> decode bearer_token = Inr data
      \<and> (map_of data ''user_id'' = None \<or> map_of data ''user_id'' = Some None) \<longrightarrow>
        (\<exists>x. authentication_handler decode validate access_token
               = Inl (PyException ''Exception'' please_login (Some x))))
   \<and> (access_token = Some t \<and> index (str_split CHR '' '' t) 1 = Some bearer_token
      \<and> decode bearer_token = Inr data
      \<and> map_of data ''user_id'' = Some (Some current_user)
      \<and> (validate current_user = Inl d \<or> validate current_user = Inr True) \<longrightarrow>
        (\<exists>x. authentication_handler decode validate access_token
               = Inl (PyException ''Exception'' please_login (Some x))))"
proof (intro conjI impI)
  show "exc_class e = ''Exception''"
    if "authentication_handler decode validate access_token = Inl e"
    using that by (auto simp add: authentication_handler_def split: sum.splits)
  show "message e = please_login"
    if "authentication_handler decode validate access_token = Inl e"
    using that by (auto simp add: authentication_handler_def split: sum.splits)
  show "\<exists>x. authentication_handler_try decode validate access_token = Inl x
          \<and> cause e = Some x"
    if "authentication_handler decode validate access_token = Inl e"
    using that by (auto simp add: authentication_handler_def split: sum.splits)
  show "exc_class e = exc_class e'"
    if "authentication_handler decode validate access_token = Inl e
      \<and> authentication_handler decode' validate' access_token' = Inl e'"
    using that by (auto simp add: authentication_handler_def split: sum.splits)
  show "message e = message e'"
    if "authentication_handler decode validate access_token = Inl e
      \<and> authentication_handler decode' validate' access_token' = Inl e'"
    using that by (auto simp add: authentication_handler_def split: sum.splits)
  show "\<exists>x. authentication_handler decode validate access_token
               = Inl (PyException ''Exception'' please_login (Some x))"
    if "access_token = None"
    using that by (simp add: authentication_handler_def authentication_handler_try_def)
  show "\<exists>x. authentication_handler decode validate access_token
               = Inl (PyException ''Exception'' please_login (Some x))"
    if "access_token = Some t \<and> index (str_split CHR '' '' t) 1 = None"
    using that by (simp add: authentication_handler_def authentication_handler_try_def)
  show "authentication_handler decode validate access_token
          = Inl (PyException ''Exception'' please_login (Some d))"
    if "access_token = Some t \<and> index (str_split CHR '' '' t) 1 = Some bearer_token
      \<and> decode bearer_token = Inl d"
    using that by (simp add: authentication_handler_def authentication_handler_try_def)
  show "\<exists>x. authentication_handler decode validate access_token
               = Inl (PyException ''Exception'' please_login (Some x))"
    if "access_token = Some t \<and> index (str_split CHR '' '' t) 1 = Some bearer_token
      \<and> decode bearer_token = Inr data
      \<and> (map_of data ''user_id'' = None \<or> map_of data ''user_id'' = Some None)"
    using that by (auto simp add: authentication_handler_def authentication_handler_try_def)
  show "\<exists>x. authentication_handler decode validate access_token
               = Inl (PyException ''Exception'' please_login (Some x))"
    if "access_token = Some t \<and> index (str_split CHR '' '' t) 1 = Some bearer_token
      \<and> decode bearer_token = Inr data
      \<and> map_of data ''user_id'' = Some (Some current_user)
      \<and> (validate current_user = Inl d \<or> validate current_user = Inr True)"
    using that by (auto simp add: authentication_handler_def authentication_handler_try_def)
qed

text \<open>The two refused tokens of the counterexample have the same class and message; a
  token that decodes to \<open>u1\<close> is accepted.\<close>

theorem authentication_handler_uniform_message_witness:
  "exc_class (PyException ''Exception'' please_login
       (Some (PyException ''IndexError'' ''list index out of range'' None)))
     = exc_class (PyException ''Exception'' please_login
       (Some (PyException ''DecodeError'' ''Signature verification failed'' None)))
   \<and> message (PyException ''Exception'' please_login
       (Some (PyException ''IndexError'' ''list index out of range'' None)))
     = message (PyException ''Exception'' please_login
       (Some (PyException ''DecodeError'' ''Signature verification failed'' None)))
   \<and> authentication_handler decode_rejecting well_formed (Some ''Bearer abc'')
     = Inl (PyException ''Exception'' please_login
         (Some (PyException ''DecodeError'' ''Signature verification failed'' None)))
   \<and> authentication_handler decode_u1 well_formed (Some ''Bearer abc'') = Inr ''u1''"
proof -
  let ?a = "PyException ''Exception'' please_login
       (Some (PyException ''IndexError'' ''list index out of range'' None))"
  let ?b = "PyException ''Exception'' please_login
       (Some (PyException ''DecodeError'' ''Signature verification failed'' None))"
  have h: "authentication_handler decode_rejecting well_formed (Some ''abc'') = Inl ?a
      \<and> authentication_handler decode_rejecting well_formed (Some ''Bearer abc'') = Inl ?b"
    by (simp add: authentication_handler_def authentication_handler_try_def index_def
        decode_rejecting_def)
  have k: "Some ''Bearer abc'' = Some ''Bearer abc''
      \<and> index (str_split CHR '' '' ''Bearer abc'') 1 = Some ''abc''
      \<and> decode_rejecting ''abc''
          = Inl (PyException ''DecodeError'' ''Signature verification failed'' None)"
    by (simp add: index_def decode_rejecting_def)
  note t = authentication_handler_uniform_message
    [of decode_rejecting well_formed "Some ''abc''" ?a decode_rejecting well_formed
       "Some ''Bearer abc''" ?b "''Bearer abc''" "''abc''"
       "PyException ''DecodeError'' ''Signature verification failed'' None"]
  from t [THEN conjunct2, THEN conjunct1, THEN mp, OF h]
  have 1: "exc_class ?a = exc_class ?b \<and> message ?a = message ?b" .
  note t' = authentication_handler_uniform_message
    [of decode_rejecting well_formed "Some ''Bearer abc''" ?b decode_rejecting well_formed
       "Some ''Bearer abc''" ?b "''Bearer abc''" "''abc''"
       "PyException ''DecodeError'' ''Signature verification failed'' None"]
  from t' [THEN conjunct2, THEN conjunct2, THEN conjunct2, THEN conjunct2, THEN conjunct1,
           THEN mp, OF k]
  have 2: "authentication_handler decode_rejecting well_formed (Some ''Bearer abc'')
     = Inl ?b" .
  have 3: "authentication_handler decode_u1 well_formed (Some ''Bearer abc'') = Inr ''u1''"
    by (simp add: authentication_handler_def authentication_handler_try_def index_def
        decode_u1_def well_formed_def)
  from 1 2 3 show ?thesis by (intro conjI) (erule conjunct1 | erule conjunct2 | assumption)+
qed

end
